theory Spec2Isabelle
  imports Complex_Main "HOL-Library.Word" "HOL-Library.Sublist"
begin

section \<open>Leaf-disease frontend: the analyze pipeline of script.js\<close>

text \<open>
  The development embeds the decision logic of \<^verbatim>\<open>script.js\<close>: file validation, the
  green-ratio heuristic, the bounded request, the interpretation of the reply, and the
  two event handlers that drive the page. The page is a record of the element
  properties the script reads and writes. A handler is cut at each \<^verbatim>\<open>await\<close> into the
  pieces that run without suspension; every piece is a function on the page. What the
  browser decides (the picture's dimensions, the ratio the heuristic computes, which of
  the request and the timer settles first, the reply and its body, the JSON reader and
  the number formatters) is an argument of the piece that receives it.

  A JavaScript number is the real value of the double it is; the literals 0.70 and 0.18
  are the doubles they denote. Comparisons of doubles are exact, so they are
  comparisons of these reals. The loop of the heuristic is embedded over the reals
  (\<open>green_ratio\<close>); the double the machine computes for a picture is an argument of the
  handler.
\<close>

subsection \<open>Configuration (lines 22-25, and the literal of line 160)\<close>

definition API_URL :: string where
  "API_URL = ''https://b-aackend.onrender.com/predict''"

definition MAX_SIZE :: nat where
  "MAX_SIZE = 5 * 1024 * 1024"

definition MIN_DIM :: nat where
  "MIN_DIM = 64"

text \<open>
  The double the literal \<^verbatim>\<open>0.70\<close> denotes, 0x1.6666666666666p-1: the multiple of
  \<open>2 ^ - 53\<close> nearest to \<open>7 / 10\<close>, and below it.
\<close>

definition CONFIDENCE_THRESHOLD :: real where
  "CONFIDENCE_THRESHOLD = 3152519739159347 / 2 ^ 52"

text \<open>
  The double the literal \<^verbatim>\<open>0.18\<close> of line 160 denotes, 0x1.70a3d70a3d70ap-3: the
  multiple of \<open>2 ^ - 55\<close> nearest to \<open>18 / 100\<close>, and below it.
\<close>

definition GREEN_RATIO_WARN :: real where
  "GREEN_RATIO_WARN = 3242591731706757 / 2 ^ 54"

subsection \<open>Message texts\<close>

text \<open>The em dash of the source's messages, as its three UTF-8 bytes.\<close>

definition EM_DASH :: string where
  "EM_DASH = [CHR 0xE2, CHR 0x80, CHR 0x94]"

definition MSG_NO_FILE :: string where
  "MSG_NO_FILE = ''No file selected.''"

definition MSG_NOT_IMAGE :: string where
  "MSG_NOT_IMAGE = ''Please choose an image file (jpg, png).''"

definition MSG_TOO_LARGE :: string where
  "MSG_TOO_LARGE = ''File is too large. Max 5MB.''"

definition MSG_TOO_SMALL :: string where
  "MSG_TOO_SMALL = ''Image resolution is too small. Use a clearer picture.''"

definition MSG_UNREADABLE :: string where
  "MSG_UNREADABLE = ''Couldn't read image. Try another file.''"

definition MSG_CHECKING :: string where
  "MSG_CHECKING = ''Checking image...''"

definition MSG_NOT_LEAF :: string where
  "MSG_NOT_LEAF = ''Image doesn't look like a leaf '' @ EM_DASH @ '' analysis may be inaccurate.''"

definition MSG_ANALYZING :: string where
  "MSG_ANALYZING = ''Analyzing image '' @ EM_DASH @ '' please wait...''"

definition MSG_SERVER_ERROR :: string where
  "MSG_SERVER_ERROR = ''Server error''"

definition MSG_UNEXPECTED :: string where
  "MSG_UNEXPECTED = ''Unexpected server response.''"

definition MSG_LOW_CONFIDENCE :: string where
  "MSG_LOW_CONFIDENCE =
     ''Model confidence is low '' @ EM_DASH @ '' image might not be a potato leaf or is unclear.''"

definition MSG_TIMEOUT :: string where
  "MSG_TIMEOUT = ''Request timed out. Try again later.''"

definition MSG_NETWORK :: string where
  "MSG_NETWORK = ''Network error. Check your connection or try again.''"

subsection \<open>Data\<close>

text \<open>A candidate file: what the script reads of a \<^verbatim>\<open>File\<close> is its declared type and its size.\<close>

record jsfile =
  ftype :: string
  fsize :: nat

text \<open>
  A number of a reply: \<^verbatim>\<open>JSON.parse\<close> yields a double, or an infinity for a numeral
  beyond the range of the doubles, and never NaN.
\<close>

datatype jsnum = Finite real | PosInfinity | NegInfinity

text \<open>
  The values a reply can hold. \<^verbatim>\<open>JSON.parse\<close> yields null, booleans, numbers, strings,
  arrays and objects; \<open>JUndefined\<close> is what reading an absent property gives. An object
  is the list of its own properties, one entry per key.
\<close>

datatype jsval =
    JUndefined
  | JNull
  | JBool bool
  | JNum jsnum
  | JStr string
  | JArr "jsval list"
  | JObj "(string \<times> jsval) list"

text \<open>
  The result of arithmetic in the heuristic: a real, or NaN (what an addition with
  \<^verbatim>\<open>undefined\<close> gives when the loop reads past the end of the buffer).
\<close>

datatype number = NaN | Num real

text \<open>
  What the heuristic's picture does: it fails to load (\<^verbatim>\<open>img.onerror\<close>), or it loads
  and the loop of lines 93-99 computes the given ratio in double arithmetic.
\<close>

datatype decode_env = LoadFails | Loads number

text \<open>
  What reading the body of a reply gives: its text, a failure, or nothing ever (the body
  never arrives in full).
\<close>

datatype body_env = BodyText string | BodyFails | BodyStalls

text \<open>An HTTP reply: the status of its headers, and what reading its body will give.\<close>

record response =
  http_status :: nat
  resp_body :: body_env

text \<open>
  What happens to the request: it resolves with a reply (the headers have arrived), it
  is rejected with an error of the given name, or it is still in flight when the timer
  fires.
\<close>

datatype fetch_env = Resolves response | Rejects string | TimerFirst

text \<open>The options \<^verbatim>\<open>fetchWithTimeout\<close> is called with.\<close>

record options =
  req_method :: string
  req_body :: "(string \<times> jsfile option) list"
  req_timeout :: "nat option"

text \<open>
  What the script does to the world outside the page, in order. \<open>BodyRead\<close> is the start
  of \<^verbatim>\<open>resp.text()\<close> or \<^verbatim>\<open>resp.json()\<close>: the transfer of the body.
\<close>

datatype effect =
    StatusSet string bool
  | TimerSet nat
  | FetchIssued string string "(string \<times> jsfile option) list"
  | Aborted
  | TimerCleared
  | BodyRead
  | ConsoleError string

text \<open>
  The browser functions the script calls and does not define: the JSON reader, the
  conversion of a number to a string, the product of two doubles and \<^verbatim>\<open>toFixed\<close>.
\<close>

record platform =
  JSON_parse :: "string \<Rightarrow> jsval option"
  Number_toString :: "jsnum \<Rightarrow> string"
  Number_times :: "jsnum \<Rightarrow> jsnum \<Rightarrow> jsnum"
  Number_toFixed :: "nat \<Rightarrow> jsnum \<Rightarrow> string"

text \<open>
  The page: the element properties the script reads and writes, and the effects so far.
  \<open>files\<close> is \<^verbatim>\<open>fileInput.files[0]\<close>; \<open>status_error\<close> is the error colour of the status
  line.
\<close>

record ui =
  files :: "jsfile option"
  status_text :: string
  status_error :: bool
  spinner_hidden :: bool
  result_hidden :: bool
  result_class :: string
  result_confidence :: string
  explain_hidden :: bool
  preview_src :: "jsfile option"
  preview_row_hidden :: bool
  analyze_disabled :: bool
  analyze2_disabled :: bool
  initial_actions_hidden :: bool
  trace :: "effect list"

text \<open>
  The pipeline states of the design, and how an event ends. The script keeps no state
  variable: a piece of a handler labels the page it leaves visible with the state of the
  design at that point of its code. \<open>NoOutcome\<close> is the end of a handler that waits for
  ever.
\<close>

datatype phase = Idle | Previewed | Checking | Sending | ResultReady | Error

datatype trust = Confident | LowConfidence

datatype outcome =
    FilePreviewed
  | ValidationError string
  | ProbeUnreadable
  | ProbeTooSmall
  | Accepted trust
  | Timeout
  | NetworkFailure
  | ServerError string
  | Malformed
  | NoOutcome

subsection \<open>JavaScript values\<close>

text \<open>Truthiness, as \<^verbatim>\<open>!v\<close> and \<^verbatim>\<open>v || w\<close> test it.\<close>

fun truthy :: "jsval \<Rightarrow> bool" where
  "truthy JUndefined = False"
| "truthy JNull = False"
| "truthy (JBool b) = b"
| "truthy (JNum (Finite x)) = (x \<noteq> 0)"
| "truthy (JNum x) = True"
| "truthy (JStr s) = (s \<noteq> [])"
| "truthy (JArr xs) = True"
| "truthy (JObj kvs) = True"

text \<open>\<^verbatim>\<open>typeof v === "number"\<close>.\<close>

fun is_number :: "jsval \<Rightarrow> bool" where
  "is_number (JNum x) = True"
| "is_number v = False"

text \<open>\<^verbatim>\<open>x < y\<close> on the numbers of a reply.\<close>

fun js_less :: "jsnum \<Rightarrow> jsnum \<Rightarrow> bool" where
  "js_less (Finite a) (Finite b) = (a < b)"
| "js_less NegInfinity (Finite b) = True"
| "js_less NegInfinity PosInfinity = True"
| "js_less (Finite a) PosInfinity = True"
| "js_less x y = False"

text \<open>
  Reading the property \<open>k\<close> of a value, for the keys the script reads (\<^verbatim>\<open>class\<close>,
  \<^verbatim>\<open>confidence\<close>, \<^verbatim>\<open>detail\<close>): null and undefined throw a TypeError, an object gives
  its entry or undefined, and no other value has such a property.
\<close>

fun get_prop :: "jsval \<Rightarrow> string \<Rightarrow> string + jsval" where
  "get_prop JNull k = Inl ''TypeError''"
| "get_prop JUndefined k = Inl ''TypeError''"
| "get_prop (JObj kvs) k = (case map_of kvs k of None \<Rightarrow> Inr JUndefined | Some v \<Rightarrow> Inr v)"
| "get_prop v k = Inr JUndefined"

fun join_comma :: "string list \<Rightarrow> string" where
  "join_comma [] = []"
| "join_comma [s] = s"
| "join_comma (s # t # ss) = s @ '','' @ join_comma (t # ss)"

text \<open>All the results, or \<open>None\<close> as soon as one is \<open>None\<close>.\<close>

fun sequence :: "'a option list \<Rightarrow> 'a list option" where
  "sequence [] = Some []"
| "sequence (None # xs) = None"
| "sequence (Some x # xs) = (case sequence xs of None \<Rightarrow> None | Some ys \<Rightarrow> Some (x # ys))"

text \<open>
  The string a value becomes when it is assigned to \<^verbatim>\<open>textContent\<close>, or \<open>None\<close> when
  the conversion throws a TypeError. An object converts through \<^verbatim>\<open>toString\<close>: the one
  it inherits gives "[object Object]"; an own property of that name, which in a parsed
  reply is never a function, leaves no way to a primitive value, and the conversion
  throws. An array joins its elements with commas, null and undefined elements as the
  empty string, and throws when an element does.
\<close>

fun to_string :: "platform \<Rightarrow> jsval \<Rightarrow> string option" where
  "to_string P JUndefined = Some ''undefined''"
| "to_string P JNull = Some ''null''"
| "to_string P (JBool b) = Some (if b then ''true'' else ''false'')"
| "to_string P (JNum x) = Some (Number_toString P x)"
| "to_string P (JStr s) = Some s"
| "to_string P (JObj kvs) =
     (if map_of kvs ''toString'' = None then Some ''[object Object]'' else None)"
| "to_string P (JArr xs) =
     map_option join_comma
       (sequence (map (\<lambda>v. if v = JNull \<or> v = JUndefined then Some [] else to_string P v) xs))"

subsection \<open>Numbers of the heuristic\<close>

fun num_add :: "number \<Rightarrow> number \<Rightarrow> number" where
  "num_add (Num a) (Num b) = Num (a + b)"
| "num_add x y = NaN"

text \<open>
  Division. The divisors of the source are the literal 3 and a sum that is at least
  1e-9, so the quotient by zero (an infinity or NaN in JavaScript) never arises; it
  is NaN here.
\<close>

fun num_div :: "number \<Rightarrow> number \<Rightarrow> number" where
  "num_div (Num a) (Num b) = (if b = 0 then NaN else Num (a / b))"
| "num_div x y = NaN"

text \<open>\<^verbatim>\<open>x < y\<close>: false as soon as one side is NaN.\<close>

fun num_less :: "number \<Rightarrow> number \<Rightarrow> bool" where
  "num_less (Num a) (Num b) = (a < b)"
| "num_less x y = False"

definition byte :: "8 word \<Rightarrow> number" where
  "byte w = Num (real (unat w))"

subsection \<open>Helpers (lines 28-42)\<close>

text \<open>
  \<^verbatim>\<open>setStatus(msg, isError)\<close> with a string \<open>msg\<close>: \<^verbatim>\<open>msg || ""\<close> is \<open>msg\<close> itself.
\<close>

definition setStatus :: "string \<Rightarrow> bool \<Rightarrow> ui \<Rightarrow> ui" where
  "setStatus msg isError u =
     u\<lparr>status_text := msg, status_error := isError, trace := trace u @ [StatusSet msg isError]\<rparr>"

definition showSpinner :: "bool \<Rightarrow> ui \<Rightarrow> ui" where
  "showSpinner shown u = u\<lparr>spinner_hidden := \<not> shown\<rparr>"

definition resetResult :: "ui \<Rightarrow> ui" where
  "resetResult u =
     u\<lparr>result_hidden := True, result_class := EM_DASH, result_confidence := EM_DASH,
       explain_hidden := True\<rparr>"

subsection \<open>fetchWithTimeout (lines 45-60)\<close>

text \<open>
  Lines 46-50: the timer is armed with the \<open>timeout\<close> option, 15000 when the option is
  absent, and the request is issued. The result is the page while the request is in
  flight.
\<close>

definition fetch_start :: "string \<Rightarrow> options \<Rightarrow> ui \<Rightarrow> ui" where
  "fetch_start resource opts u =
     (let timeout = (case req_timeout opts of None \<Rightarrow> 15000 | Some t \<Rightarrow> t)
      in u\<lparr>trace := trace u @
             [TimerSet timeout, FetchIssued resource (req_method opts) (req_body opts)]\<rparr>)"

text \<open>
  Lines 54-58 and the callback of the timer. When the request settles first, the timer
  is cleared and the reply returned or the error rethrown. When the timer fires first,
  its callback aborts the request, which is then rejected with an \<^verbatim>\<open>AbortError\<close>.
\<close>

definition fetch_settled :: "fetch_env \<Rightarrow> ui \<Rightarrow> (string + response) \<times> ui" where
  "fetch_settled env u =
     (case env of
        Resolves resp \<Rightarrow> (Inr resp, u\<lparr>trace := trace u @ [TimerCleared]\<rparr>)
      | Rejects name \<Rightarrow> (Inl name, u\<lparr>trace := trace u @ [TimerCleared]\<rparr>)
      | TimerFirst \<Rightarrow> (Inl ''AbortError'', u\<lparr>trace := trace u @ [Aborted, TimerCleared]\<rparr>))"

text \<open>The whole call, from the arming of the timer to the reply or the error.\<close>

definition fetchWithTimeout ::
  "string \<Rightarrow> options \<Rightarrow> fetch_env \<Rightarrow> ui \<Rightarrow> (string + response) \<times> ui" where
  "fetchWithTimeout resource opts env u = fetch_settled env (fetch_start resource opts u)"

subsection \<open>validateFile (lines 63-68)\<close>

text \<open>\<open>None\<close> is the source's \<^verbatim>\<open>null\<close>: no error.\<close>

definition validateFile :: "jsfile option \<Rightarrow> string option" where
  "validateFile file =
     (case file of
        None \<Rightarrow> Some MSG_NO_FILE
      | Some f \<Rightarrow>
          if \<not> prefix ''image/'' (ftype f) then Some MSG_NOT_IMAGE
          else if fsize f > MAX_SIZE then Some MSG_TOO_LARGE
          else None)"

subsection \<open>greenRatioHeuristic (lines 82-105)\<close>

text \<open>
  The loop over the RGBA buffer, four bytes a step. A buffer of whole pixels ends with
  the empty list; the last three equations are a ragged tail, where the missing bytes
  read as \<^verbatim>\<open>undefined\<close>.
\<close>

fun green_loop :: "8 word list \<Rightarrow> number \<Rightarrow> number \<Rightarrow> number \<times> number" where
  "green_loop (r # g # b # a # rest) gSum tot =
     green_loop rest (num_add gSum (byte g))
       (num_add tot (num_div (num_add (num_add (byte r) (byte g)) (byte b)) (Num 3)))"
| "green_loop [] gSum tot = (gSum, tot)"
| "green_loop [r] gSum tot = (NaN, NaN)"
| "green_loop [r, g] gSum tot = (num_add gSum (byte g), NaN)"
| "green_loop [r, g, b] gSum tot =
     (num_add gSum (byte g),
      num_add tot (num_div (num_add (num_add (byte r) (byte g)) (byte b)) (Num 3)))"

definition green_ratio :: "8 word list \<Rightarrow> number" where
  "green_ratio data =
     (case green_loop data (Num 0) (Num 0) of
        (gSum, tot) \<Rightarrow> num_div gSum (num_add tot (Num (1 / 10 ^ 9))))"

text \<open>
  What the promise of \<^verbatim>\<open>greenRatioHeuristic\<close> resolves with: 0 when the picture does not
  load (line 102), else the ratio the loop computed. \<open>green_ratio\<close> is that ratio over
  the reals; the double of the machine differs from it by the rounding of each
  operation.
\<close>

definition greenRatioHeuristic :: "decode_env \<Rightarrow> number" where
  "greenRatioHeuristic decoded =
     (case decoded of LoadFails \<Rightarrow> Num 0 | Loads ratio \<Rightarrow> ratio)"

subsection \<open>The change handler of the file input (lines 108-139)\<close>

text \<open>
  Lines 109-121, up to the wait for the picture's dimensions: the handler ends with a
  validation error (left), or waits on the page on the right.
\<close>

definition change_begin :: "ui \<Rightarrow> (outcome \<times> ui) + ui" where
  "change_begin u =
     (let u1 = setStatus [] False (resetResult u)
      in case validateFile (files u1) of
           Some err \<Rightarrow> Inl (ValidationError err, (setStatus err True u1)\<lparr>files := None\<rparr>)
         | None \<Rightarrow> Inr u1)"

text \<open>
  Lines 121-138, once the decoding has ended. \<open>file\<close> is the file the handler read at
  line 111; \<open>probe\<close> is \<open>None\<close> when the picture does not load, else its natural width and
  height.
\<close>

definition change_probed :: "jsfile option \<Rightarrow> (nat \<times> nat) option \<Rightarrow> ui \<Rightarrow> outcome \<times> ui" where
  "change_probed file probe u =
     (case probe of
        None \<Rightarrow> (ProbeUnreadable, (setStatus MSG_UNREADABLE True u)\<lparr>files := None\<rparr>)
      | Some (width, height) \<Rightarrow>
          if width < MIN_DIM \<or> height < MIN_DIM
          then (ProbeTooSmall, (setStatus MSG_TOO_SMALL True u)\<lparr>files := None\<rparr>)
          else (FilePreviewed,
                u\<lparr>preview_src := file, preview_row_hidden := False,
                  analyze_disabled := False, analyze2_disabled := False,
                  initial_actions_hidden := True\<rparr>))"

text \<open>The pipeline state an event ends in.\<close>

fun phase_of :: "outcome \<Rightarrow> phase" where
  "phase_of FilePreviewed = Previewed"
| "phase_of (ValidationError err) = Idle"
| "phase_of ProbeUnreadable = Idle"
| "phase_of ProbeTooSmall = Idle"
| "phase_of (Accepted t) = ResultReady"
| "phase_of Timeout = Error"
| "phase_of NetworkFailure = Error"
| "phase_of (ServerError msg) = Error"
| "phase_of Malformed = Error"
| "phase_of NoOutcome = Sending"

text \<open>
  The handler run on its own, with nothing else running while it waits. The result is
  how the event ends and the pages that were visible: the page at the suspension and
  the page at the end, each with its pipeline state.
\<close>

definition onFileChange :: "(nat \<times> nat) option \<Rightarrow> ui \<Rightarrow> outcome \<times> (phase \<times> ui) list" where
  "onFileChange probe u =
     (case change_begin u of
        Inl (out, v) \<Rightarrow> (out, [(phase_of out, v)])
      | Inr u1 \<Rightarrow>
          (case change_probed (files u) probe u1 of
             (out, v) \<Rightarrow> (out, [(Idle, u1), (phase_of out, v)])))"

subsection \<open>onAnalyzeClick (lines 149-218)\<close>

text \<open>\<^verbatim>\<open>resp.ok\<close>: the status is in the range 200-299.\<close>

definition ok :: "response \<Rightarrow> bool" where
  "ok resp = (200 \<le> http_status resp \<and> http_status resp \<le> 299)"

text \<open>
  \<^verbatim>\<open>resp.json()\<close>, for what reading the body gave (\<open>None\<close>: a failure): the body is
  parsed; the call is rejected when the body cannot be read or is not JSON.
\<close>

definition resp_json :: "platform \<Rightarrow> string option \<Rightarrow> string + jsval" where
  "resp_json P b =
     (case b of
        None \<Rightarrow> Inl ''TypeError''
      | Some t \<Rightarrow> (case JSON_parse P t of None \<Rightarrow> Inl ''SyntaxError'' | Some v \<Rightarrow> Inr v))"

text \<open>The \<^verbatim>\<open>catch\<close> block (lines 212-217), for an error of the given name.\<close>

definition catch_block :: "string \<Rightarrow> ui \<Rightarrow> outcome \<times> ui" where
  "catch_block name u =
     (let u1 = showSpinner False u;
          u2 = (if name = ''AbortError'' then setStatus MSG_TIMEOUT True u1
                else setStatus MSG_NETWORK True u1)
      in (if name = ''AbortError'' then Timeout else NetworkFailure,
          u2\<lparr>trace := trace u2 @ [ConsoleError name]\<rparr>))"

text \<open>
  The message of a reply that is not ok (lines 181-187), for what reading the body
  gave. \<open>txt\<close> is the body, or "Server error" when it cannot be read. When the body
  parses and its \<^verbatim>\<open>detail\<close> is truthy, the message is the detail as \<^verbatim>\<open>textContent\<close>
  shows it; when it parses and the detail is falsy, the message is \<open>txt\<close>. When the body
  does not parse, or \<^verbatim>\<open>json.detail\<close> throws, or the detail cannot be converted to a
  string (the assignment of line 29 throws), the inner \<^verbatim>\<open>catch\<close> shows \<open>txt\<close>, or
  "Server error" when \<open>txt\<close> is empty.
\<close>

definition server_message :: "platform \<Rightarrow> string option \<Rightarrow> string" where
  "server_message P b =
     (let txt = (case b of None \<Rightarrow> MSG_SERVER_ERROR | Some t \<Rightarrow> t);
          fallback = (if txt \<noteq> [] then txt else MSG_SERVER_ERROR)
      in case JSON_parse P txt of
           None \<Rightarrow> fallback
         | Some json \<Rightarrow>
             (case get_prop json ''detail'' of
                Inl name \<Rightarrow> fallback
              | Inr detail \<Rightarrow>
                  if truthy detail
                  then (case to_string P detail of None \<Rightarrow> fallback | Some s \<Rightarrow> s)
                  else txt))"

text \<open>
  The interpretation of the parsed reply (lines 195-210). Reading \<^verbatim>\<open>data.class\<close> of
  null throws, and so does the assignment of line 208 when the class cannot be
  converted to a string; the \<^verbatim>\<open>catch\<close> block handles both. In the second case the
  status of lines 201-206 has been set before.
\<close>

definition interpret_reply :: "platform \<Rightarrow> jsval \<Rightarrow> ui \<Rightarrow> outcome \<times> ui" where
  "interpret_reply P data u =
     (case get_prop data ''class'' of
        Inl name \<Rightarrow> catch_block name u
      | Inr cls \<Rightarrow>
          if \<not> truthy cls then (Malformed, setStatus MSG_UNEXPECTED True u)
          else
            (case get_prop data ''confidence'' of
               Inl name \<Rightarrow> catch_block name u
             | Inr (JNum confidence) \<Rightarrow>
                 (let low = js_less confidence (Finite CONFIDENCE_THRESHOLD);
                      u1 = (if low
                            then (setStatus MSG_LOW_CONFIDENCE True u)\<lparr>explain_hidden := False\<rparr>
                            else setStatus [] False u)
                  in case to_string P cls of
                       None \<Rightarrow> catch_block ''TypeError'' u1
                     | Some shown \<Rightarrow>
                         (Accepted (if low then LowConfidence else Confident),
                          u1\<lparr>result_class := shown,
                             result_confidence :=
                               Number_toFixed P 1 (Number_times P confidence (Finite 100)) @ ''%'',
                             result_hidden := False\<rparr>))
             | Inr other \<Rightarrow> (Malformed, setStatus MSG_UNEXPECTED True u)))"

text \<open>
  Lines 150-158, up to the wait for the heuristic: the handler ends with a validation
  error (left), or waits on the page on the right.
\<close>

definition analyze_begin :: "ui \<Rightarrow> (outcome \<times> ui) + ui" where
  "analyze_begin u =
     (let u1 = setStatus [] False (resetResult u)
      in case validateFile (files u1) of
           Some err \<Rightarrow> Inl (ValidationError err, setStatus err True u1)
         | None \<Rightarrow> Inr (setStatus MSG_CHECKING False u1))"

text \<open>
  Lines 160-168: the heuristic's verdict and the start of the sending. A ratio below
  0.18 sets the warning and shows the explanation; the status line is then set to the
  analyzing message and the spinner shown, whatever the ratio.
\<close>

definition analyze_check :: "number \<Rightarrow> ui \<Rightarrow> ui" where
  "analyze_check greenRatio u =
     (let u1 = (if num_less greenRatio (Num GREEN_RATIO_WARN)
                then (setStatus MSG_NOT_LEAF True u)\<lparr>explain_hidden := False\<rparr>
                else u)
      in showSpinner True (setStatus MSG_ANALYZING False u1))"

text \<open>The request of the analyze call (lines 170-178), for the file read at line 152.\<close>

definition analyze_options :: "jsfile option \<Rightarrow> options" where
  "analyze_options file =
     \<lparr>req_method = ''POST'', req_body = [(''file'', file)], req_timeout = Some 20000\<rparr>"

text \<open>The start of \<^verbatim>\<open>resp.text()\<close> (line 181) or \<^verbatim>\<open>resp.json()\<close> (line 192).\<close>

definition read_body :: "ui \<Rightarrow> ui" where
  "read_body u = u\<lparr>trace := trace u @ [BodyRead]\<rparr>"

text \<open>
  Lines 180-210 once the body has been read (\<open>Some\<close>) or has failed (\<open>None\<close>): the
  message of a reply that is not ok, else the interpretation of the parsed body.
\<close>

definition analyze_body :: "platform \<Rightarrow> response \<Rightarrow> string option \<Rightarrow> ui \<Rightarrow> outcome \<times> ui" where
  "analyze_body P resp b u =
     (if \<not> ok resp
      then (let msg = server_message P b
            in (ServerError msg, showSpinner False (setStatus msg True u)))
      else
        (case resp_json P b of
           Inl name \<Rightarrow> catch_block name u
         | Inr data \<Rightarrow> interpret_reply P data (showSpinner False u)))"

text \<open>
  What follows the request, given how \<^verbatim>\<open>fetchWithTimeout\<close> ended, with the pages that
  are visible. An error goes to the \<^verbatim>\<open>catch\<close> block. A reply has its body read, with
  no timer armed: the handler waits on the page \<open>read_body u\<close>, for ever when the body
  never arrives.
\<close>

definition analyze_finish ::
  "platform \<Rightarrow> string + response \<Rightarrow> ui \<Rightarrow> outcome \<times> (phase \<times> ui) list" where
  "analyze_finish P r u =
     (case r of
        Inl name \<Rightarrow> (case catch_block name u of (out, v) \<Rightarrow> (out, [(phase_of out, v)]))
      | Inr resp \<Rightarrow>
          (case resp_body resp of
             BodyStalls \<Rightarrow> (NoOutcome, [(Sending, read_body u)])
           | BodyFails \<Rightarrow>
               (case analyze_body P resp None (read_body u) of
                  (out, v) \<Rightarrow> (out, [(Sending, read_body u), (phase_of out, v)]))
           | BodyText t \<Rightarrow>
               (case analyze_body P resp (Some t) (read_body u) of
                  (out, v) \<Rightarrow> (out, [(Sending, read_body u), (phase_of out, v)]))))"

text \<open>
  The handler run on its own, with nothing else running while it waits. \<open>decoded\<close> is
  what the heuristic's picture does and \<open>net\<close> what happens to the request. The pages
  listed are those at the suspensions (waiting for the heuristic, for the request, and
  for the body of a reply) and the page at the end.
\<close>

definition onAnalyzeClick ::
  "platform \<Rightarrow> decode_env \<Rightarrow> fetch_env \<Rightarrow> ui \<Rightarrow> outcome \<times> (phase \<times> ui) list" where
  "onAnalyzeClick P decoded net u =
     (case analyze_begin u of
        Inl (out, v) \<Rightarrow> (out, [(phase_of out, v)])
      | Inr u2 \<Rightarrow>
          (let u4 = analyze_check (greenRatioHeuristic decoded) u2;
               opts = analyze_options (files u);
               (r, u5) = fetchWithTimeout API_URL opts net u4;
               (out, pages) = analyze_finish P r u5
           in (out, [(Checking, u2), (Sending, fetch_start API_URL opts u4)] @ pages)))"

subsection \<open>The page as a state machine\<close>

text \<open>Lines 229-232: both analyze buttons start disabled.\<close>

definition onDOMContentLoaded :: "ui \<Rightarrow> ui" where
  "onDOMContentLoaded u = u\<lparr>analyze_disabled := True, analyze2_disabled := True\<rparr>"

text \<open>
  A handler that waits: for the dimensions of the file it read, for the heuristic on the
  file it read, for the request, or for the body of a reply.
\<close>

datatype cont =
    AwaitDims "jsfile option"
  | AwaitHeuristic "jsfile option"
  | AwaitFetch
  | AwaitBody response

text \<open>
  What can happen next on the page: a file is selected (the browser puts it into the
  input and fires the change event), an analyze button is clicked, or something a
  handler waits for arrives.
\<close>

datatype move =
    Selected "jsfile option"
  | Clicked
  | Probed "jsfile option" "(nat \<times> nat) option"
  | Scored "jsfile option" decode_env
  | Fetched fetch_env
  | BodyArrived response

text \<open>
  The page with its state and the handlers that wait on it. The script disables no
  trigger while a handler waits (the buttons are enabled at lines 136-137 and never
  disabled again), so a selection or a click is taken on every page; a click is taken
  here even before the buttons are enabled, which adds pages and removes none.
\<close>

type_synonym config = "phase \<times> ui \<times> cont list"

text \<open>
  One move: the piece of code it starts or resumes runs to its next suspension.
  \<open>None\<close> when no handler waits for what arrives; a body that stalls never arrives.
\<close>

fun react :: "platform \<Rightarrow> move \<Rightarrow> config \<Rightarrow> config option" where
  "react P (Selected sel) (p, u, ks) =
     Some (case change_begin (u\<lparr>files := sel\<rparr>) of
             Inl (out, v) \<Rightarrow> (phase_of out, v, ks)
           | Inr v \<Rightarrow> (Idle, v, ks @ [AwaitDims sel]))"
| "react P Clicked (p, u, ks) =
     Some (case analyze_begin u of
             Inl (out, v) \<Rightarrow> (phase_of out, v, ks)
           | Inr v \<Rightarrow> (Checking, v, ks @ [AwaitHeuristic (files u)]))"
| "react P (Probed file probe) (p, u, ks) =
     (if AwaitDims file \<in> set ks
      then Some (case change_probed file probe u of
                   (out, v) \<Rightarrow> (phase_of out, v, remove1 (AwaitDims file) ks))
      else None)"
| "react P (Scored file decoded) (p, u, ks) =
     (if AwaitHeuristic file \<in> set ks
      then Some (Sending,
                 fetch_start API_URL (analyze_options file)
                   (analyze_check (greenRatioHeuristic decoded) u),
                 remove1 (AwaitHeuristic file) ks @ [AwaitFetch])
      else None)"
| "react P (Fetched net) (p, u, ks) =
     (if AwaitFetch \<in> set ks
      then Some (case fetch_settled net u of
                   (Inl name, v) \<Rightarrow>
                     (case catch_block name v of
                        (out, w) \<Rightarrow> (phase_of out, w, remove1 AwaitFetch ks))
                 | (Inr resp, v) \<Rightarrow>
                     (Sending, read_body v, remove1 AwaitFetch ks @ [AwaitBody resp]))
      else None)"
| "react P (BodyArrived resp) (p, u, ks) =
     (if AwaitBody resp \<in> set ks
      then (case resp_body resp of
              BodyStalls \<Rightarrow> None
            | BodyFails \<Rightarrow>
                Some (case analyze_body P resp None u of
                        (out, v) \<Rightarrow> (phase_of out, v, remove1 (AwaitBody resp) ks))
            | BodyText t \<Rightarrow>
                Some (case analyze_body P resp (Some t) u of
                        (out, v) \<Rightarrow> (phase_of out, v, remove1 (AwaitBody resp) ks)))
      else None)"

text \<open>
  Modelled from the spec: the markup of the page is not among the sources, so a load
  starts from any page that, as the design has it, shows no result and has no file
  selected; its state is Idle.

  Every page that is ever visible: the loaded page, and the page after each move.
\<close>

inductive reachable :: "platform \<Rightarrow> config \<Rightarrow> bool" for P :: platform where
  loaded: "result_hidden u \<Longrightarrow> files u = None \<Longrightarrow> reachable P (Idle, onDOMContentLoaded u, [])"
| moved: "reachable P c \<Longrightarrow> react P m c = Some c' \<Longrightarrow> reachable P c'"

text \<open>A list of moves in order; a move that cannot be made is skipped.\<close>

fun run :: "platform \<Rightarrow> move list \<Rightarrow> config \<Rightarrow> config" where
  "run P [] c = c"
| "run P (m # ms) c = run P ms (case react P m c of None \<Rightarrow> c | Some c' \<Rightarrow> c')"

text \<open>
  The runs in which the handlers do not overlap: an event is taken only when no handler
  waits, or when the one that waits does so for ever. An event is then a handler run on
  its own.
\<close>

datatype event =
    FileSelected "jsfile option" "(nat \<times> nat) option"
  | AnalyzeRequested decode_env fetch_env

fun handle :: "platform \<Rightarrow> event \<Rightarrow> ui \<Rightarrow> outcome \<times> (phase \<times> ui) list" where
  "handle P (FileSelected sel probe) u = onFileChange probe (u\<lparr>files := sel\<rparr>)"
| "handle P (AnalyzeRequested decoded net) u = onAnalyzeClick P decoded net u"

text \<open>
  The pages between the events of such a run. As for \<open>reachable\<close>, a load starts from
  any page that shows no result and has no file selected.
\<close>

inductive settled :: "platform \<Rightarrow> phase \<times> ui \<Rightarrow> bool" for P :: platform where
  loaded: "result_hidden u \<Longrightarrow> files u = None \<Longrightarrow> settled P (Idle, onDOMContentLoaded u)"
| handled: "settled P (p, u) \<Longrightarrow> settled P (last (snd (handle P ev u)))"

text \<open>The pages visible in such a run: between events, or while a handler waits.\<close>

inductive serially_visible :: "platform \<Rightarrow> phase \<times> ui \<Rightarrow> bool" for P :: platform where
  between: "settled P s \<Longrightarrow> serially_visible P s"
| during: "settled P (p, u) \<Longrightarrow> s \<in> set (snd (handle P ev u)) \<Longrightarrow> serially_visible P s"

text \<open>The handlers that wait in such a run: those whose body never arrives.\<close>

definition all_stalled :: "cont list \<Rightarrow> bool" where
  "all_stalled ks \<longleftrightarrow> (\<forall>k \<in> set ks. \<exists>resp. k = AwaitBody resp \<and> resp_body resp = BodyStalls)"

subsection \<open>Reading the result of a handler\<close>

definition final_page :: "outcome \<times> (phase \<times> ui) list \<Rightarrow> ui" where
  "final_page r = snd (last (snd r))"

definition final_phase :: "outcome \<times> (phase \<times> ui) list \<Rightarrow> phase" where
  "final_phase r = fst (last (snd r))"

text \<open>The effects between two pages of one run.\<close>

definition effects_of :: "ui \<Rightarrow> ui \<Rightarrow> effect list" where
  "effects_of before after = drop (length (trace before)) (trace after)"

text \<open>The effects on the network and the timer.\<close>

fun is_net :: "effect \<Rightarrow> bool" where
  "is_net (StatusSet msg isError) = False"
| "is_net (ConsoleError name) = False"
| "is_net e = True"

text \<open>A page on which the result is hidden and its two fields reset.\<close>

definition result_cleared :: "ui \<Rightarrow> bool" where
  "result_cleared u \<longleftrightarrow>
     result_hidden u \<and> result_class u = EM_DASH \<and> result_confidence u = EM_DASH"

subsection \<open>The ratio as the specification words it\<close>

type_synonym pixel = "8 word \<times> 8 word \<times> 8 word \<times> 8 word"

text \<open>The buffer of a list of pixels: red, green, blue and alpha of each, in order.\<close>

fun rgba_bytes :: "pixel list \<Rightarrow> 8 word list" where
  "rgba_bytes [] = []"
| "rgba_bytes ((r, g, b, a) # ps) = r # g # b # a # rgba_bytes ps"

text \<open>
  The sum of the green channel over the sum of the channel means plus 1e-9: the
  formula of the specification, to be compared with \<open>green_ratio\<close>.
\<close>

definition spec_ratio :: "pixel list \<Rightarrow> real" where
  "spec_ratio ps =
     (\<Sum>(r, g, b, a)\<leftarrow>ps. real (unat g)) /
     ((\<Sum>(r, g, b, a)\<leftarrow>ps. (real (unat r) + real (unat g) + real (unat b)) / 3) + 1 / 10 ^ 9)"

text \<open>The 64 by 64 buffer whose pixels all have the same colour.\<close>

definition uniform :: "8 word \<Rightarrow> 8 word \<Rightarrow> 8 word \<Rightarrow> 8 word \<Rightarrow> 8 word list" where
  "uniform r g b a = rgba_bytes (replicate (64 * 64) (r, g, b, a))"

text \<open>A ratio within \<open>tol\<close> of \<open>t\<close>.\<close>

fun near :: "real \<Rightarrow> number \<Rightarrow> real \<Rightarrow> bool" where
  "near tol (Num x) t = (\<bar>x - t\<bar> \<le> tol)"
| "near tol NaN t = False"

subsection \<open>A page, files and browser functions to run the handlers on\<close>

definition blank_page :: ui where
  "blank_page =
     \<lparr>files = None, status_text = [], status_error = False, spinner_hidden = True,
      result_hidden = True, result_class = EM_DASH, result_confidence = EM_DASH,
      explain_hidden = True, preview_src = None, preview_row_hidden = True,
      analyze_disabled = False, analyze2_disabled = False, initial_actions_hidden = False,
      trace = []\<rparr>"

definition leaf_jpeg :: jsfile where
  "leaf_jpeg = \<lparr>ftype = ''image/jpeg'', fsize = 2 * 1024 * 1024\<rparr>"

definition leaf_png :: jsfile where
  "leaf_png = \<lparr>ftype = ''image/png'', fsize = 1024 * 1024\<rparr>"

text \<open>
  Browser functions given by tables: what each body parses to, how each number prints,
  the product of two doubles, and the digits \<^verbatim>\<open>toFixed\<close> gives.
\<close>

definition table_platform ::
  "(string \<times> jsval) list \<Rightarrow> (jsnum \<times> string) list \<Rightarrow> ((jsnum \<times> jsnum) \<times> jsnum) list \<Rightarrow>
   ((nat \<times> jsnum) \<times> string) list \<Rightarrow> platform" where
  "table_platform bodies shown products fixed =
     \<lparr>JSON_parse = map_of bodies,
      Number_toString = (\<lambda>x. case map_of shown x of None \<Rightarrow> [] | Some s \<Rightarrow> s),
      Number_times = (\<lambda>x y. case map_of products (x, y) of None \<Rightarrow> Finite 0 | Some z \<Rightarrow> z),
      Number_toFixed = (\<lambda>d x. case map_of fixed (d, x) of None \<Rightarrow> [] | Some s \<Rightarrow> s)\<rparr>"

definition body_at_threshold :: string where
  \<open>body_at_threshold = ''{"class":"Healthy","confidence":0.70}''\<close>

definition body_below_threshold :: string where
  \<open>body_below_threshold = ''{"class":"Healthy","confidence":0.699999}''\<close>

definition body_confident :: string where
  \<open>body_confident = ''{"class":"Healthy","confidence":0.92}''\<close>

definition body_out_of_range :: string where
  \<open>body_out_of_range = ''{"class":"Healthy","confidence":1.5}''\<close>

definition body_numeric_class :: string where
  \<open>body_numeric_class = ''{"class":123,"confidence":0.95}''\<close>

definition body_unprintable_class :: string where
  \<open>body_unprintable_class = ''{"class":{"toString":1},"confidence":0.9}''\<close>

definition body_no_confidence :: string where
  \<open>body_no_confidence = ''{"class":"Healthy"}''\<close>

definition body_unavailable :: string where
  \<open>body_unavailable = ''{"detail":"model unavailable"}''\<close>

text \<open>
  The doubles the numerals of these bodies denote: 0.70 is \<open>CONFIDENCE_THRESHOLD\<close>,
  0.699999 is 0x1.666644d87725p-1, 0.92 is 0x1.d70a3d70a3d71p-1, 0.95 is
  0x1.e666666666666p-1, 0.9 is 0x1.ccccccccccccdp-1; 1.5, 1 and 123 are doubles.
\<close>

definition demo_platform :: platform where
  "demo_platform =
     table_platform
       [(body_at_threshold,
         JObj [(''class'', JStr ''Healthy''),
               (''confidence'', JNum (Finite (3152519739159347 / 2 ^ 52)))]),
        (body_below_threshold,
         JObj [(''class'', JStr ''Healthy''),
               (''confidence'', JNum (Finite (394064404444965 / 2 ^ 49)))]),
        (body_confident,
         JObj [(''class'', JStr ''Healthy''),
               (''confidence'', JNum (Finite (8286623314361713 / 2 ^ 53)))]),
        (body_out_of_range,
         JObj [(''class'', JStr ''Healthy''), (''confidence'', JNum (Finite (3 / 2)))]),
        (body_numeric_class,
         JObj [(''class'', JNum (Finite 123)),
               (''confidence'', JNum (Finite (4278419646001971 / 2 ^ 52)))]),
        (body_unprintable_class,
         JObj [(''class'', JObj [(''toString'', JNum (Finite 1))]),
               (''confidence'', JNum (Finite (8106479329266893 / 2 ^ 53)))]),
        (body_no_confidence, JObj [(''class'', JStr ''Healthy'')]),
        (body_unavailable, JObj [(''detail'', JStr ''model unavailable'')])]
       [(Finite 123, ''123'')]
       [((Finite (3152519739159347 / 2 ^ 52), Finite 100), Finite 70),
        ((Finite (394064404444965 / 2 ^ 49), Finite 100), Finite (2462902527781031 / 2 ^ 45)),
        ((Finite (8286623314361713 / 2 ^ 53), Finite 100), Finite 92),
        ((Finite (3 / 2), Finite 100), Finite 150),
        ((Finite (4278419646001971 / 2 ^ 52), Finite 100), Finite 95),
        ((Finite (8106479329266893 / 2 ^ 53), Finite 100), Finite 90)]
       [((1, Finite 70), ''70.0''),
        ((1, Finite (2462902527781031 / 2 ^ 45)), ''70.0''),
        ((1, Finite 92), ''92.0''),
        ((1, Finite 150), ''150.0''),
        ((1, Finite 95), ''95.0''),
        ((1, Finite 90), ''90.0'')]"

text \<open>A reply 200 or 500 with the given body.\<close>

definition reply :: "nat \<Rightarrow> string \<Rightarrow> response" where
  "reply code b = \<lparr>http_status = code, resp_body = BodyText b\<rparr>"

text \<open>A page on which \<open>leaf_jpeg\<close> is selected.\<close>

definition demo_page :: ui where
  "demo_page = blank_page\<lparr>files := Some leaf_jpeg\<rparr>"

text \<open>The pages of an analyze attempt on a file that passes validation, in order.\<close>

definition checking_page :: "ui \<Rightarrow> ui" where
  "checking_page u = setStatus MSG_CHECKING False (setStatus [] False (resetResult u))"

definition request_page :: "decode_env \<Rightarrow> ui \<Rightarrow> ui" where
  "request_page decoded u = analyze_check (greenRatioHeuristic decoded) (checking_page u)"

definition sending_page :: "decode_env \<Rightarrow> ui \<Rightarrow> ui" where
  "sending_page decoded u =
     fetch_start API_URL (analyze_options (files u)) (request_page decoded u)"

definition reading_page :: "decode_env \<Rightarrow> ui \<Rightarrow> ui" where
  "reading_page decoded u =
     read_body ((sending_page decoded u)\<lparr>trace := trace (sending_page decoded u) @ [TimerCleared]\<rparr>)"

text \<open>The effects of lines 151-178, up to the request.\<close>

definition check_effects :: "decode_env \<Rightarrow> effect list" where
  "check_effects decoded =
     [StatusSet [] False, StatusSet MSG_CHECKING False]
     @ (if num_less (greenRatioHeuristic decoded) (Num GREEN_RATIO_WARN)
        then [StatusSet MSG_NOT_LEAF True] else [])
     @ [StatusSet MSG_ANALYZING False]"

text \<open>Two runs from a freshly loaded page: a file is selected, then analyzed.\<close>

definition demo_previewed :: "phase \<times> ui" where
  "demo_previewed =
     last (snd (handle demo_platform (FileSelected (Some leaf_jpeg) (Some (800, 600)))
       (onDOMContentLoaded blank_page)))"

definition demo_ready :: "phase \<times> ui" where
  "demo_ready =
     last (snd (handle demo_platform
       (AnalyzeRequested (Loads (Num 1)) (Resolves (reply 200 body_at_threshold)))
       (snd demo_previewed)))"

text \<open>
  A run in which two handlers overlap: a file is selected and analyzed; while the
  request is in flight another file is selected; the reply and its body arrive while
  the change handler waits for the dimensions of the new file; then these arrive.
\<close>

definition race_moves :: "move list" where
  "race_moves =
     [Selected (Some leaf_jpeg), Probed (Some leaf_jpeg) (Some (800, 600)),
      Clicked, Scored (Some leaf_jpeg) (Loads (Num 1)),
      Selected (Some leaf_png),
      Fetched (Resolves (reply 200 body_confident)), BodyArrived (reply 200 body_confident),
      Probed (Some leaf_png) (Some (640, 480))]"

definition race_end :: config where
  "race_end = run demo_platform race_moves (Idle, onDOMContentLoaded blank_page, [])"

section \<open>Properties\<close>

subsection \<open>File validation\<close>

text \<open>
  Claim C5, as stated, fails: the type is checked before the size, so a file over
  5 MiB whose declared type is not an image is refused for its type.
\<close>

theorem validateFile_large_pdf_is_type_error:
  "MAX_SIZE < fsize \<lparr>ftype = ''application/pdf'', fsize = 6291456\<rparr> \<and>
   validateFile (Some \<lparr>ftype = ''application/pdf'', fsize = 6291456\<rparr>) = Some MSG_NOT_IMAGE \<and>
   validateFile (Some \<lparr>ftype = ''application/pdf'', fsize = 6291456\<rparr>) \<noteq> Some MSG_TOO_LARGE"
  by (simp add: validateFile_def MAX_SIZE_def MSG_NOT_IMAGE_def MSG_TOO_LARGE_def)

text \<open>
  Claim C5, amended: every file over 5 MiB (5 * 1024 * 1024 bytes) is refused; the
  error is TooLarge when its declared type starts with "image/", and InvalidType
  otherwise.
\<close>

theorem validateFile_over_max_size:
  "MAX_SIZE < fsize f \<Longrightarrow>
   MAX_SIZE = 5 * 1024 * 1024 \<and>
   validateFile (Some f) =
     Some (if prefix ''image/'' (ftype f) then MSG_TOO_LARGE else MSG_NOT_IMAGE)"
  by (simp add: validateFile_def MAX_SIZE_def)

theorem validateFile_over_max_size_witness:
  "MAX_SIZE < fsize \<lparr>ftype = ''image/png'', fsize = 6291456\<rparr> \<and>
   validateFile (Some \<lparr>ftype = ''image/png'', fsize = 6291456\<rparr>) = Some MSG_TOO_LARGE"
  using validateFile_over_max_size [of "\<lparr>ftype = ''image/png'', fsize = 6291456\<rparr>"]
  by (simp add: MAX_SIZE_def)

subsection \<open>The green-ratio heuristic\<close>

lemma unsigned_real_nonneg: "0 \<le> (unsigned (w :: 8 word) :: real)"
  by (metis of_nat_0_le_iff of_nat_unat)

lemma green_loop_pixels:
  "green_loop (rgba_bytes ps) (Num gs) (Num t) =
     (Num (gs + (\<Sum>(r, g, b, a)\<leftarrow>ps. real (unat g))),
      Num (t + (\<Sum>(r, g, b, a)\<leftarrow>ps. (real (unat r) + real (unat g) + real (unat b)) / 3)))"
  by (induction ps arbitrary: gs t) (auto simp: byte_def add.assoc)

lemma mean_sum_nonneg:
  "0 \<le> (\<Sum>(r, g, b, a)\<leftarrow>ps.
          (real (unat (r :: 8 word)) + real (unat (g :: 8 word)) + real (unat (b :: 8 word))) / 3)"
  by (induction ps) (auto simp: unsigned_real_nonneg add_nonneg_nonneg)

lemma green_ratio_pixels: "green_ratio (rgba_bytes ps) = Num (spec_ratio ps)"
proof -
  have "0 < (\<Sum>(r, g, b, a)\<leftarrow>ps. (real (unat r) + real (unat g) + real (unat b)) / 3) + 1 / 10 ^ 9"
    using mean_sum_nonneg [of ps] by simp
  then show ?thesis
    by (simp add: green_ratio_def green_loop_pixels spec_ratio_def)
qed

lemma spec_ratio_replicate:
  "spec_ratio (replicate n (r, g, b, a)) =
     (real n * real (unat g)) /
     (real n * ((real (unat r) + real (unat g) + real (unat b)) / 3) + 1 / 10 ^ 9)"
  by (simp add: spec_ratio_def sum_list_replicate)

lemma green_ratio_black: "green_ratio (uniform 0 0 0 255) = Num 0"
  by (simp add: uniform_def green_ratio_pixels spec_ratio_replicate)

lemma green_ratio_white:
  "green_ratio (uniform 255 255 255 255) = Num (1044480 / (1044480 + 1 / 10 ^ 9))"
  by (simp add: uniform_def green_ratio_pixels spec_ratio_replicate)

lemma green_ratio_green:
  "green_ratio (uniform 0 255 0 255) = Num (1044480 / (348160 + 1 / 10 ^ 9))"
  by (simp add: uniform_def green_ratio_pixels spec_ratio_replicate)

text \<open>
  Claim C4, as stated, fails: the ratio of the all-black buffer is 0, that of the
  all-white buffer is next to 1 and that of the pure-green buffer next to 3; none is
  within a quarter of the value the claim gives (0.5, 0.5 and 1).
\<close>

theorem green_ratio_not_neutral:
  "\<not> near (1 / 4) (green_ratio (uniform 0 0 0 255)) (1 / 2) \<and>
   \<not> near (1 / 4) (green_ratio (uniform 255 255 255 255)) (1 / 2) \<and>
   \<not> near (1 / 4) (green_ratio (uniform 0 255 0 255)) 1"
  by (simp add: green_ratio_black green_ratio_white green_ratio_green)

text \<open>
  Claim C4, amended: on a buffer of whole pixels the heuristic is the function
  (sum of green) / (sum of (red + green + blue) / 3 + 1e-9) of the buffer; the all-black
  64 by 64 buffer has ratio 0, the all-white one a ratio within 1e-9 of 1, and the
  pure-green one a ratio within 1e-8 of 3.
\<close>

theorem green_ratio_is_spec_ratio:
  "green_ratio (rgba_bytes ps) = Num (spec_ratio ps) \<and>
   green_ratio (uniform 0 0 0 255) = Num 0 \<and>
   near (1 / 10 ^ 9) (green_ratio (uniform 255 255 255 255)) 1 \<and>
   near (1 / 10 ^ 8) (green_ratio (uniform 0 255 0 255)) 3"
  by (simp add: green_ratio_pixels green_ratio_black green_ratio_white green_ratio_green)

theorem green_ratio_is_spec_ratio_witness:
  "green_ratio [10, 200, 30, 255, 0, 100, 20, 255] = Num (300 / (120 + 1 / 10 ^ 9))"
  using green_ratio_is_spec_ratio [of "[(10, 200, 30, 255), (0, 100, 20, 255)]"]
  by (simp add: spec_ratio_def)


subsection \<open>The constants as doubles\<close>

lemma threshold_nearest_double:
  "CONFIDENCE_THRESHOLD = 6305039478318694 / 2 ^ 53 \<and>
   CONFIDENCE_THRESHOLD < 7 / 10 \<and> 7 / 10 - CONFIDENCE_THRESHOLD < 1 / 2 ^ 54"
  by (simp add: CONFIDENCE_THRESHOLD_def)

lemma warn_level_nearest_double:
  "GREEN_RATIO_WARN = 6485183463413514 / 2 ^ 55 \<and>
   GREEN_RATIO_WARN < 18 / 100 \<and> 18 / 100 - GREEN_RATIO_WARN < 1 / 2 ^ 56"
  by (simp add: GREEN_RATIO_WARN_def)

subsection \<open>The analyze handler on a file that passes validation\<close>

lemmas page_defs = setStatus_def showSpinner_def resetResult_def

lemma analyze_begin_valid:
  assumes "validateFile (files u) = None"
  shows "analyze_begin u = Inr (checking_page u)"
  using assms by (simp add: analyze_begin_def checking_page_def Let_def page_defs)

lemma analyze_begin_invalid:
  assumes "validateFile (files u) = Some err"
  shows "analyze_begin u =
     Inl (ValidationError err, setStatus err True (setStatus [] False (resetResult u)))"
  using assms by (simp add: analyze_begin_def Let_def page_defs)

lemma onAnalyzeClick_valid:
  assumes "validateFile (files u) = None"
  shows "onAnalyzeClick P decoded net u =
     (let r = fetchWithTimeout API_URL (analyze_options (files u)) net (request_page decoded u);
          e = analyze_finish P (fst r) (snd r)
      in (fst e, [(Checking, checking_page u), (Sending, sending_page decoded u)] @ snd e))"
  by (simp add: onAnalyzeClick_def analyze_begin_valid [OF assms] request_page_def
        sending_page_def Let_def split_def)

lemma analyze_invalid:
  assumes "validateFile (files u) = Some err"
  shows "onAnalyzeClick P decoded net u =
     (ValidationError err, [(Idle, setStatus err True (setStatus [] False (resetResult u)))])"
  by (simp add: onAnalyzeClick_def analyze_begin_invalid [OF assms])

lemma fetch_resolves:
  "fetchWithTimeout API_URL (analyze_options (files u)) (Resolves resp) (request_page decoded u) =
     (Inr resp, (sending_page decoded u)\<lparr>trace := trace (sending_page decoded u) @ [TimerCleared]\<rparr>)"
  by (simp add: fetchWithTimeout_def fetch_settled_def sending_page_def)

lemma finish_body:
  assumes "resp_body resp = BodyText t \<and> b = Some t \<or> resp_body resp = BodyFails \<and> b = None"
  shows "analyze_finish P (Inr resp) v =
     (fst (analyze_body P resp b (read_body v)),
      [(Sending, read_body v),
       (phase_of (fst (analyze_body P resp b (read_body v))),
        snd (analyze_body P resp b (read_body v)))])"
  using assms by (auto simp: analyze_finish_def split_def)

lemma analyze_resolved:
  assumes "validateFile (files u) = None"
    and "resp_body resp = BodyText t \<and> b = Some t \<or> resp_body resp = BodyFails \<and> b = None"
  shows "fst (onAnalyzeClick P decoded (Resolves resp) u) =
           fst (analyze_body P resp b (reading_page decoded u))"
    and "final_page (onAnalyzeClick P decoded (Resolves resp) u) =
           snd (analyze_body P resp b (reading_page decoded u))"
    and "final_phase (onAnalyzeClick P decoded (Resolves resp) u) =
           phase_of (fst (analyze_body P resp b (reading_page decoded u)))"
  by (simp_all add: onAnalyzeClick_valid [OF assms(1)] Let_def fetch_resolves
        finish_body [OF assms(2)] final_page_def final_phase_def reading_page_def)

lemma analyze_stalled:
  assumes "validateFile (files u) = None" and "resp_body resp = BodyStalls"
  shows "fst (onAnalyzeClick P decoded (Resolves resp) u) = NoOutcome"
    and "final_page (onAnalyzeClick P decoded (Resolves resp) u) = reading_page decoded u"
    and "final_phase (onAnalyzeClick P decoded (Resolves resp) u) = Sending"
  using assms(2)
  by (simp_all add: onAnalyzeClick_valid [OF assms(1)] Let_def fetch_resolves
        analyze_finish_def final_page_def final_phase_def reading_page_def)

lemma body_ok:
  assumes "ok resp" "resp_json P b = Inr data"
  shows "analyze_body P resp b v = interpret_reply P data (showSpinner False v)"
  using assms by (simp add: analyze_body_def)

lemma body_unparsed:
  assumes "ok resp" "resp_json P b = Inl name"
  shows "analyze_body P resp b v = catch_block name v"
  using assms by (simp add: analyze_body_def)

lemma interpret_accepted:
  assumes "get_prop data ''class'' = Inr cls" "truthy cls"
    and "get_prop data ''confidence'' = Inr (JNum c)" "to_string P cls = Some shown"
  shows "interpret_reply P data v =
     (Accepted (if js_less c (Finite CONFIDENCE_THRESHOLD) then LowConfidence else Confident),
      (if js_less c (Finite CONFIDENCE_THRESHOLD)
       then (setStatus MSG_LOW_CONFIDENCE True v)\<lparr>explain_hidden := False\<rparr>
       else setStatus [] False v)
      \<lparr>result_class := shown,
        result_confidence := Number_toFixed P 1 (Number_times P c (Finite 100)) @ ''%'',
        result_hidden := False\<rparr>)"
  using assms by (simp add: interpret_reply_def Let_def)

lemma interpret_unprintable:
  assumes "get_prop data ''class'' = Inr cls" "truthy cls"
    and "get_prop data ''confidence'' = Inr (JNum c)" "to_string P cls = None"
  shows "interpret_reply P data v =
     catch_block ''TypeError''
       (if js_less c (Finite CONFIDENCE_THRESHOLD)
        then (setStatus MSG_LOW_CONFIDENCE True v)\<lparr>explain_hidden := False\<rparr>
        else setStatus [] False v)"
  using assms by (simp add: interpret_reply_def Let_def)

lemma interpret_malformed:
  assumes "get_prop data ''class'' = Inr cls" "get_prop data ''confidence'' = Inr conf"
    and "\<not> truthy cls \<or> \<not> is_number conf"
  shows "interpret_reply P data v = (Malformed, setStatus MSG_UNEXPECTED True v)"
  using assms by (cases conf) (auto simp: interpret_reply_def)

lemma is_number_iff: "is_number v \<longleftrightarrow> (\<exists>c. v = JNum c)"
  by (cases v) auto

lemma catch_block_other:
  assumes "name \<noteq> ''AbortError''"
  shows "fst (catch_block name v) = NetworkFailure"
    and "status_text (snd (catch_block name v)) = MSG_NETWORK"
    and "status_error (snd (catch_block name v))"
    and "spinner_hidden (snd (catch_block name v))"
    and "result_hidden (snd (catch_block name v)) = result_hidden v"
    and "files (snd (catch_block name v)) = files v"
    and "explain_hidden (snd (catch_block name v)) = explain_hidden v"
  using assms by (simp_all add: catch_block_def Let_def page_defs)

lemma request_page_fields:
  "result_hidden (request_page decoded u)"
  "result_class (request_page decoded u) = EM_DASH"
  "result_confidence (request_page decoded u) = EM_DASH"
  "files (request_page decoded u) = files u"
  "\<not> spinner_hidden (request_page decoded u)"
  "status_text (request_page decoded u) = MSG_ANALYZING"
  "explain_hidden (request_page decoded u) =
     (\<not> num_less (greenRatioHeuristic decoded) (Num GREEN_RATIO_WARN))"
  by (simp_all add: request_page_def checking_page_def analyze_check_def Let_def page_defs)

lemma sending_page_fields:
  "result_hidden (sending_page decoded u)"
  "result_class (sending_page decoded u) = EM_DASH"
  "result_confidence (sending_page decoded u) = EM_DASH"
  "files (sending_page decoded u) = files u"
  "\<not> spinner_hidden (sending_page decoded u)"
  "status_text (sending_page decoded u) = MSG_ANALYZING"
  "explain_hidden (sending_page decoded u) =
     (\<not> num_less (greenRatioHeuristic decoded) (Num GREEN_RATIO_WARN))"
  by (simp_all add: sending_page_def fetch_start_def request_page_fields)

lemma reading_page_fields:
  "result_hidden (reading_page decoded u)"
  "result_class (reading_page decoded u) = EM_DASH"
  "result_confidence (reading_page decoded u) = EM_DASH"
  "files (reading_page decoded u) = files u"
  "\<not> spinner_hidden (reading_page decoded u)"
  "status_text (reading_page decoded u) = MSG_ANALYZING"
  "explain_hidden (reading_page decoded u) =
     (\<not> num_less (greenRatioHeuristic decoded) (Num GREEN_RATIO_WARN))"
  by (simp_all add: reading_page_def read_body_def sending_page_fields)

lemmas demo_defs = demo_platform_def table_platform_def demo_page_def blank_page_def leaf_jpeg_def
  body_at_threshold_def body_below_threshold_def body_out_of_range_def body_numeric_class_def
  body_no_confidence_def body_unavailable_def body_confident_def body_unprintable_class_def

lemma demo_valid: "validateFile (files demo_page) = None"
  by (simp add: validateFile_def demo_defs MAX_SIZE_def)

lemma reply_ok: "ok (reply 200 b)"
  by (simp add: ok_def reply_def)

lemma reply_not_ok: "\<not> ok (reply 500 b)"
  by (simp add: ok_def reply_def)

lemma demo_parse:
  "JSON_parse demo_platform body_at_threshold =
     Some (JObj [(''class'', JStr ''Healthy''),
                 (''confidence'', JNum (Finite (3152519739159347 / 2 ^ 52)))])"
  "JSON_parse demo_platform body_below_threshold =
     Some (JObj [(''class'', JStr ''Healthy''),
                 (''confidence'', JNum (Finite (394064404444965 / 2 ^ 49)))])"
  "JSON_parse demo_platform body_confident =
     Some (JObj [(''class'', JStr ''Healthy''),
                 (''confidence'', JNum (Finite (8286623314361713 / 2 ^ 53)))])"
  "JSON_parse demo_platform body_out_of_range =
     Some (JObj [(''class'', JStr ''Healthy''), (''confidence'', JNum (Finite (3 / 2)))])"
  "JSON_parse demo_platform body_numeric_class =
     Some (JObj [(''class'', JNum (Finite 123)),
                 (''confidence'', JNum (Finite (4278419646001971 / 2 ^ 52)))])"
  "JSON_parse demo_platform body_unprintable_class =
     Some (JObj [(''class'', JObj [(''toString'', JNum (Finite 1))]),
                 (''confidence'', JNum (Finite (8106479329266893 / 2 ^ 53)))])"
  "JSON_parse demo_platform body_no_confidence = Some (JObj [(''class'', JStr ''Healthy'')])"
  "JSON_parse demo_platform body_unavailable =
     Some (JObj [(''detail'', JStr ''model unavailable'')])"
  "JSON_parse demo_platform [] = None"
  by (simp_all add: demo_defs)

lemma resp_json_parsed:
  "JSON_parse P t = Some data \<Longrightarrow> resp_json P (Some t) = Inr data"
  by (simp add: resp_json_def)

text \<open>The outcome and the last page of an attempt whose reply is ok and parses.\<close>

lemma analyze_parsed:
  assumes "validateFile (files u) = None" "ok resp" "resp_body resp = BodyText t"
    and "JSON_parse P t = Some data"
  shows "fst (onAnalyzeClick P decoded (Resolves resp) u) =
           fst (interpret_reply P data (showSpinner False (reading_page decoded u)))"
    and "final_page (onAnalyzeClick P decoded (Resolves resp) u) =
           snd (interpret_reply P data (showSpinner False (reading_page decoded u)))"
    and "final_phase (onAnalyzeClick P decoded (Resolves resp) u) =
           phase_of (fst (interpret_reply P data (showSpinner False (reading_page decoded u))))"
proof -
  have b: "resp_body resp = BodyText t \<and> Some t = Some t \<or>
      resp_body resp = BodyFails \<and> Some t = None"
    using assms(3) by simp
  show "fst (onAnalyzeClick P decoded (Resolves resp) u) =
           fst (interpret_reply P data (showSpinner False (reading_page decoded u)))"
    and "final_page (onAnalyzeClick P decoded (Resolves resp) u) =
           snd (interpret_reply P data (showSpinner False (reading_page decoded u)))"
    and "final_phase (onAnalyzeClick P decoded (Resolves resp) u) =
           phase_of (fst (interpret_reply P data (showSpinner False (reading_page decoded u))))"
    by (simp_all add: analyze_resolved [OF assms(1) b]
          body_ok [OF assms(2) resp_json_parsed [OF assms(4)]])
qed

text \<open>
  Claim C2, as stated, fails: a Confident result can come with a warning shown. When
  the heuristic has shown the explanation (here the picture of the heuristic does not
  load), nothing hides it again, and the reply with confidence 0.92 is Confident with
  the explanation visible.
\<close>

theorem confident_with_explanation_shown:
  "fst (onAnalyzeClick demo_platform LoadFails (Resolves (reply 200 body_confident)) demo_page)
     = Accepted Confident \<and>
   \<not> explain_hidden (final_page
       (onAnalyzeClick demo_platform LoadFails (Resolves (reply 200 body_confident)) demo_page))"
proof -
  let ?data = "JObj [(''class'', JStr ''Healthy''),
                 (''confidence'', JNum (Finite (8286623314361713 / 2 ^ 53)))]"
  have i: "interpret_reply demo_platform ?data v =
     (Accepted Confident,
      (setStatus [] False v)
      \<lparr>result_class := ''Healthy'',
        result_confidence :=
          Number_toFixed demo_platform 1
            (Number_times demo_platform (Finite (8286623314361713 / 2 ^ 53)) (Finite 100)) @ ''%'',
        result_hidden := False\<rparr>)" for v
    by (simp add: interpret_accepted [where cls = "JStr ''Healthy''"
          and c = "Finite (8286623314361713 / 2 ^ 53)" and shown = "''Healthy''"]
        CONFIDENCE_THRESHOLD_def)
  have w: "num_less (greenRatioHeuristic LoadFails) (Num GREEN_RATIO_WARN)"
    by (simp add: greenRatioHeuristic_def GREEN_RATIO_WARN_def)
  have b: "resp_body (reply 200 body_confident) = BodyText body_confident"
    by (simp add: reply_def)
  show ?thesis
    unfolding analyze_parsed [OF demo_valid reply_ok b demo_parse(3)] i
    using w by (simp add: reading_page_fields page_defs)
qed

text \<open>
  Claim C2, amended: for every accepted reply the trust tag is a function of the
  confidence alone, with an inclusive lower bound at 0.70 (as doubles are compared: the
  double 0.70, the nearest to 7/10 and just below it). From 0.70 on the result is
  Confident and the interpreter shows no warning of its own: the status line is cleared,
  and the explanation is visible only if the heuristic has shown it earlier in the
  attempt. Below 0.70 the result is LowConfidence, the status line carries the
  low-confidence warning and the explanation is shown. At 0.70 the result is Confident,
  at 0.699999 LowConfidence.
\<close>

theorem confidence_threshold:
  assumes "validateFile (files u) = None"
    and "ok resp" and "resp_body resp = BodyText t" and "JSON_parse P t = Some data"
    and "get_prop data ''class'' = Inr cls" and "truthy cls" and "to_string P cls = Some shown"
    and "get_prop data ''confidence'' = Inr (JNum c)"
    and "r = onAnalyzeClick P decoded (Resolves resp) u"
  shows "fst r = Accepted (if js_less c (Finite CONFIDENCE_THRESHOLD) then LowConfidence
                           else Confident) \<and>
         (\<forall>x. c = Finite x \<longrightarrow>
            js_less c (Finite CONFIDENCE_THRESHOLD) = (x < CONFIDENCE_THRESHOLD) \<and>
            (7 / 10 \<le> x \<longrightarrow> \<not> js_less c (Finite CONFIDENCE_THRESHOLD))) \<and>
         CONFIDENCE_THRESHOLD < 7 / 10 \<and> 7 / 10 - CONFIDENCE_THRESHOLD < 1 / 2 ^ 54 \<and>
         (\<not> js_less c (Finite CONFIDENCE_THRESHOLD) \<longrightarrow>
            status_text (final_page r) = [] \<and> \<not> status_error (final_page r) \<and>
            explain_hidden (final_page r) =
              (\<not> num_less (greenRatioHeuristic decoded) (Num GREEN_RATIO_WARN))) \<and>
         (js_less c (Finite CONFIDENCE_THRESHOLD) \<longrightarrow>
            status_text (final_page r) = MSG_LOW_CONFIDENCE \<and>
            status_error (final_page r) \<and> \<not> explain_hidden (final_page r))"
proof -
  note a = analyze_parsed [OF assms(1,2,3,4)] interpret_accepted [OF assms(5,6,8,7)]
  have "fst r = Accepted (if js_less c (Finite CONFIDENCE_THRESHOLD) then LowConfidence
                           else Confident)"
    by (simp add: assms(9) a)
  moreover have "\<forall>x. c = Finite x \<longrightarrow>
            js_less c (Finite CONFIDENCE_THRESHOLD) = (x < CONFIDENCE_THRESHOLD) \<and>
            (7 / 10 \<le> x \<longrightarrow> \<not> js_less c (Finite CONFIDENCE_THRESHOLD))"
    using threshold_nearest_double by auto
  moreover have "\<not> js_less c (Finite CONFIDENCE_THRESHOLD) \<longrightarrow>
            status_text (final_page r) = [] \<and> \<not> status_error (final_page r) \<and>
            explain_hidden (final_page r) =
              (\<not> num_less (greenRatioHeuristic decoded) (Num GREEN_RATIO_WARN))"
    by (simp add: assms(9) a reading_page_fields page_defs)
  moreover have "js_less c (Finite CONFIDENCE_THRESHOLD) \<longrightarrow>
            status_text (final_page r) = MSG_LOW_CONFIDENCE \<and>
            status_error (final_page r) \<and> \<not> explain_hidden (final_page r)"
    by (simp add: assms(9) a page_defs)
  ultimately show ?thesis using threshold_nearest_double by simp
qed

theorem confidence_threshold_witness:
  "fst (onAnalyzeClick demo_platform (Loads (Num 1)) (Resolves (reply 200 body_at_threshold))
         demo_page) = Accepted Confident \<and>
   explain_hidden (final_page (onAnalyzeClick demo_platform (Loads (Num 1))
         (Resolves (reply 200 body_at_threshold)) demo_page)) \<and>
   fst (onAnalyzeClick demo_platform (Loads (Num 1)) (Resolves (reply 200 body_below_threshold))
         demo_page) = Accepted LowConfidence"
proof -
  have b: "resp_body (reply 200 t) = BodyText t" for t
    by (simp add: reply_def)
  have g: "get_prop (JObj [(''class'', JStr ''Healthy''), (''confidence'', JNum c)]) ''class''
             = Inr (JStr ''Healthy'')"
    "get_prop (JObj [(''class'', JStr ''Healthy''), (''confidence'', JNum c)]) ''confidence''
             = Inr (JNum c)" for c
    by simp_all
  have s: "truthy (JStr ''Healthy'')" "to_string demo_platform (JStr ''Healthy'') = Some ''Healthy''"
    by simp_all
  have n: "\<not> num_less (greenRatioHeuristic (Loads (Num 1))) (Num GREEN_RATIO_WARN)"
    by (simp add: greenRatioHeuristic_def GREEN_RATIO_WARN_def)
  show ?thesis
    using confidence_threshold [OF demo_valid reply_ok b demo_parse(1) g(1) s g(2) refl,
        of "Loads (Num 1)"]
      confidence_threshold [OF demo_valid reply_ok b demo_parse(2) g(1) s g(2) refl,
        of "Loads (Num 1)"] n
    by (simp add: CONFIDENCE_THRESHOLD_def)
qed

subsection \<open>What the interpreter accepts\<close>

lemma healthy_props:
  "get_prop (JObj [(''class'', JStr ''Healthy''), (''confidence'', JNum c)]) ''class''
     = Inr (JStr ''Healthy'')"
  "get_prop (JObj [(''class'', JStr ''Healthy''), (''confidence'', JNum c)]) ''confidence''
     = Inr (JNum c)"
  "truthy (JStr ''Healthy'')"
  "to_string P (JStr ''Healthy'') = Some ''Healthy''"
  by simp_all

lemma reply_text: "resp_body (reply code t) = BodyText t"
  by (simp add: reply_def)

text \<open>
  Claim C1, as stated, fails: the confidence is only checked to be a number, so a reply
  with confidence 1.5 is accepted.
\<close>

theorem out_of_range_confidence_is_accepted:
  "fst (onAnalyzeClick demo_platform LoadFails (Resolves (reply 200 body_out_of_range)) demo_page)
     = Accepted Confident \<and>
   fst (onAnalyzeClick demo_platform LoadFails (Resolves (reply 200 body_out_of_range)) demo_page)
     \<noteq> Malformed"
  unfolding analyze_parsed [OF demo_valid reply_ok reply_text demo_parse(4)]
    interpret_accepted [OF healthy_props(1,3,2,4)]
  by (simp add: CONFIDENCE_THRESHOLD_def)

lemma resp_json_error_name:
  "resp_json P b = Inl name \<Longrightarrow> name \<noteq> ''AbortError''"
  by (auto simp: resp_json_def split: option.splits)

lemma result_hidden_status_branch:
  "result_hidden
     (if low then (setStatus MSG_LOW_CONFIDENCE True v)\<lparr>explain_hidden := False\<rparr>
      else setStatus [] False v) = result_hidden v"
  by (simp add: page_defs)

text \<open>
  Claim C1, amended: for a reply that is ok and whose body parses to a value other than
  null, the outcome is Malformed exactly when \<^verbatim>\<open>class\<close> is falsy (absent, empty, ...) or
  \<^verbatim>\<open>confidence\<close> is not of number type, whatever the value of the confidence. A
  Malformed reply ends in Error with the message "Unexpected server response." and no
  result shown. A reply that passes the check is accepted when its class converts to a
  string; when it does not, showing it throws and the attempt ends in Error with the
  network message and no result shown. A body that cannot be read or parsed, or that
  parses to null, ends in Error with the network message. No reply escapes as a fault;
  an attempt whose body never arrives reports nothing.
\<close>

theorem malformed_iff_falsy_class_or_no_number:
  assumes "validateFile (files u) = None"
    and "ok resp"
    and "r = onAnalyzeClick P decoded (Resolves resp) u"
  shows "(\<forall>t data cls conf.
            resp_body resp = BodyText t \<and> JSON_parse P t = Some data \<and>
            get_prop data ''class'' = Inr cls \<and> get_prop data ''confidence'' = Inr conf \<longrightarrow>
              (fst r = Malformed \<longleftrightarrow> \<not> truthy cls \<or> \<not> is_number conf) \<and>
              (fst r = Malformed \<longrightarrow>
                 final_phase r = Error \<and> status_text (final_page r) = MSG_UNEXPECTED \<and>
                 status_error (final_page r) \<and> result_hidden (final_page r)) \<and>
              (fst r \<noteq> Malformed \<and> to_string P cls \<noteq> None \<longrightarrow>
                 (\<exists>tag. fst r = Accepted tag) \<and> final_phase r = ResultReady) \<and>
              (fst r \<noteq> Malformed \<and> to_string P cls = None \<longrightarrow>
                 fst r = NetworkFailure \<and> final_phase r = Error \<and>
                 status_text (final_page r) = MSG_NETWORK \<and> status_error (final_page r) \<and>
                 result_hidden (final_page r))) \<and>
         (resp_body resp = BodyFails \<or>
          (\<exists>t. resp_body resp = BodyText t \<and>
               (JSON_parse P t = None \<or> JSON_parse P t = Some JNull)) \<longrightarrow>
              fst r = NetworkFailure \<and> final_phase r = Error \<and>
              status_text (final_page r) = MSG_NETWORK \<and> status_error (final_page r) \<and>
              result_hidden (final_page r)) \<and>
         (resp_body resp = BodyStalls \<longrightarrow> fst r = NoOutcome \<and> final_phase r = Sending)"
proof (intro conjI allI impI)
  fix t data cls conf
  assume h: "resp_body resp = BodyText t \<and> JSON_parse P t = Some data \<and>
            get_prop data ''class'' = Inr cls \<and> get_prop data ''confidence'' = Inr conf"
  then have b: "resp_body resp = BodyText t" and j: "JSON_parse P t = Some data"
    and c: "get_prop data ''class'' = Inr cls"
    and f: "get_prop data ''confidence'' = Inr conf" by simp_all
  note a = analyze_parsed [OF assms(1,2) b j, of decoded]
  let ?v = "showSpinner False (reading_page decoded u)"
  have hid: "result_hidden ?v"
    by (simp add: reading_page_fields page_defs)
  have cases: "\<not> truthy cls \<or> \<not> is_number conf \<or>
      (\<exists>x. truthy cls \<and> conf = JNum x)"
    by (auto simp: is_number_iff)
  have bad: "interpret_reply P data ?v = (Malformed, setStatus MSG_UNEXPECTED True ?v)"
    if "\<not> truthy cls \<or> \<not> is_number conf"
    by (rule interpret_malformed [OF c f that])
  have good: "fst (interpret_reply P data ?v) \<noteq> Malformed"
    if "truthy cls" "is_number conf"
  proof -
    from that obtain x where x: "conf = JNum x" by (auto simp: is_number_iff)
    show ?thesis
    proof (cases "to_string P cls")
      case None
      show ?thesis
        using interpret_unprintable [OF c that(1) f [unfolded x] None, of ?v]
        by (simp add: catch_block_other)
    next
      case (Some shown)
      show ?thesis
        using interpret_accepted [OF c that(1) f [unfolded x] Some, of ?v] by simp
    qed
  qed
  show iff: "fst r = Malformed \<longleftrightarrow> \<not> truthy cls \<or> \<not> is_number conf"
    using bad good by (auto simp: assms(3) a)
  show "final_phase r = Error" "status_text (final_page r) = MSG_UNEXPECTED"
    "status_error (final_page r)" "result_hidden (final_page r)" if "fst r = Malformed"
    using that iff bad hid by (auto simp: assms(3) a page_defs)
  {
    assume n: "fst r \<noteq> Malformed \<and> to_string P cls \<noteq> None"
    with iff have tc: "truthy cls" and "is_number conf" by auto
    then obtain x where x: "conf = JNum x" by (auto simp: is_number_iff)
    from n obtain shown where s: "to_string P cls = Some shown" by auto
    note i = interpret_accepted [OF c tc f [unfolded x] s, of ?v]
    show "\<exists>tag. fst r = Accepted tag" by (simp add: assms(3) a i)
    show "final_phase r = ResultReady" by (simp add: assms(3) a i)
  }
  {
    assume n: "fst r \<noteq> Malformed \<and> to_string P cls = None"
    with iff have tc: "truthy cls" and "is_number conf" by auto
    then obtain x where x: "conf = JNum x" by (auto simp: is_number_iff)
    from n have s: "to_string P cls = None" by simp
    note i = interpret_unprintable [OF c tc f [unfolded x] s, of ?v]
    show "fst r = NetworkFailure" by (simp add: assms(3) a i catch_block_other)
    show "final_phase r = Error" by (simp add: assms(3) a i catch_block_other)
    show "status_text (final_page r) = MSG_NETWORK"
      by (simp add: assms(3) a i catch_block_other)
    show "status_error (final_page r)" by (simp add: assms(3) a i catch_block_other)
    show "result_hidden (final_page r)"
      using hid by (simp add: assms(3) a i catch_block_other result_hidden_status_branch)
  }
next
  assume h: "resp_body resp = BodyFails \<or>
          (\<exists>t. resp_body resp = BodyText t \<and>
               (JSON_parse P t = None \<or> JSON_parse P t = Some JNull))"
  have "\<exists>b n v. (resp_body resp = BodyText (the b) \<and> b = Some (the b) \<or>
                  resp_body resp = BodyFails \<and> b = None) \<and>
          n \<noteq> ''AbortError'' \<and> result_hidden v \<and>
          analyze_body P resp b (reading_page decoded u) = catch_block n v"
  proof -
    from h consider "resp_body resp = BodyFails"
      | t where "resp_body resp = BodyText t" "JSON_parse P t = None"
      | t where "resp_body resp = BodyText t" "JSON_parse P t = Some JNull"
      by blast
    then show ?thesis
    proof cases
      case 1
      have "analyze_body P resp None (reading_page decoded u) =
          catch_block ''TypeError'' (reading_page decoded u)"
        by (rule body_unparsed [OF assms(2)]) (simp add: resp_json_def)
      with 1 show ?thesis
        by (intro exI [of _ None] exI [of _ "''TypeError''"]
              exI [of _ "reading_page decoded u"]) (simp add: reading_page_fields)
    next
      case 2
      have "analyze_body P resp (Some t) (reading_page decoded u) =
          catch_block ''SyntaxError'' (reading_page decoded u)"
        by (rule body_unparsed [OF assms(2)]) (simp add: resp_json_def 2)
      with 2 show ?thesis
        by (intro exI [of _ "Some t"] exI [of _ "''SyntaxError''"]
              exI [of _ "reading_page decoded u"]) (simp add: reading_page_fields)
    next
      case 3
      have "analyze_body P resp (Some t) (reading_page decoded u) =
          catch_block ''TypeError'' (showSpinner False (reading_page decoded u))"
        using body_ok [OF assms(2) resp_json_parsed [OF 3(2)]]
        by (simp add: interpret_reply_def)
      with 3 show ?thesis
        by (intro exI [of _ "Some t"] exI [of _ "''TypeError''"]
              exI [of _ "showSpinner False (reading_page decoded u)"])
          (simp add: reading_page_fields page_defs)
    qed
  qed
  then obtain b n v where b: "resp_body resp = BodyText (the b) \<and> b = Some (the b) \<or>
                  resp_body resp = BodyFails \<and> b = None"
    and n: "n \<noteq> ''AbortError''" and v: "result_hidden v"
    and e: "analyze_body P resp b (reading_page decoded u) = catch_block n v"
    by blast
  note a = analyze_resolved [OF assms(1) b, of P decoded]
  note c = catch_block_other [OF n, of v]
  show "fst r = NetworkFailure" by (simp add: assms(3) a e c)
  show "final_phase r = Error" by (simp add: assms(3) a e c)
  show "status_text (final_page r) = MSG_NETWORK" by (simp add: assms(3) a e c)
  show "status_error (final_page r)" by (simp add: assms(3) a e c)
  show "result_hidden (final_page r)" by (simp add: assms(3) a e c v)
next
  assume s: "resp_body resp = BodyStalls"
  show "fst r = NoOutcome" "final_phase r = Sending"
    by (simp_all add: assms(3) analyze_stalled [OF assms(1) s])
qed

theorem malformed_iff_falsy_class_or_no_number_witness:
  "fst (onAnalyzeClick demo_platform LoadFails (Resolves (reply 200 body_no_confidence)) demo_page)
     = Malformed"
proof -
  let ?data = "JObj [(''class'', JStr ''Healthy'')]"
  from malformed_iff_falsy_class_or_no_number [OF demo_valid reply_ok [of body_no_confidence] refl,
      where P = demo_platform and decoded = LoadFails]
  have "resp_body (reply 200 body_no_confidence) = BodyText body_no_confidence \<and>
        JSON_parse demo_platform body_no_confidence = Some ?data \<and>
        get_prop ?data ''class'' = Inr (JStr ''Healthy'') \<and>
        get_prop ?data ''confidence'' = Inr JUndefined \<longrightarrow>
        (fst (onAnalyzeClick demo_platform LoadFails
           (Resolves (reply 200 body_no_confidence)) demo_page) = Malformed) =
        (\<not> truthy (JStr ''Healthy'') \<or> \<not> is_number JUndefined)"
    by blast
  then show ?thesis by (simp add: reply_text demo_parse)
qed

text \<open>
  Claim C10, as stated, fails: a truthy class that cannot be converted to a string
  passes the check of line 195 but is neither accepted nor displayed. For the class
  \<^verbatim>\<open>{toString: 1}\<close> the assignment of line 208 throws, and the attempt ends with the
  network message and no result shown.
\<close>

theorem unprintable_class_is_not_displayed:
  "truthy (JObj [(''toString'', JNum (Finite 1))]) \<and>
   fst (onAnalyzeClick demo_platform LoadFails (Resolves (reply 200 body_unprintable_class))
         demo_page) = NetworkFailure \<and>
   result_hidden (final_page (onAnalyzeClick demo_platform LoadFails
         (Resolves (reply 200 body_unprintable_class)) demo_page))"
proof -
  let ?cls = "JObj [(''toString'', JNum (Finite 1))]"
  let ?data = "JObj [(''class'', ?cls), (''confidence'', JNum (Finite (8106479329266893 / 2 ^ 53)))]"
  have i: "interpret_reply demo_platform ?data v =
     catch_block ''TypeError''
       (if js_less (Finite (8106479329266893 / 2 ^ 53)) (Finite CONFIDENCE_THRESHOLD)
        then (setStatus MSG_LOW_CONFIDENCE True v)\<lparr>explain_hidden := False\<rparr>
        else setStatus [] False v)" for v
    by (rule interpret_unprintable [where cls = ?cls]) simp_all
  show ?thesis
    unfolding analyze_parsed [OF demo_valid reply_ok reply_text demo_parse(6)] i
    by (simp add: catch_block_other result_hidden_status_branch reading_page_fields page_defs)
qed

text \<open>
  Claim C10, amended: the check of \<^verbatim>\<open>class\<close> is by truthiness and that of
  \<^verbatim>\<open>confidence\<close> by number type alone: a reply passes exactly when its class is truthy
  and its confidence a number, and an absent or empty class is Malformed. A class that
  passes and converts to a string, whatever its type, is accepted and displayed as that
  string: \<^verbatim>\<open>{class: 123, confidence: 0.95}\<close> is accepted and shows "123". A class that
  passes and does not convert (an object with an own \<^verbatim>\<open>toString\<close> entry) is not
  displayed: the attempt ends in Error with the network message.
\<close>

theorem class_check_is_truthiness:
  assumes "validateFile (files u) = None"
    and "ok resp" and "resp_body resp = BodyText t" and "JSON_parse P t = Some data"
    and "get_prop data ''class'' = Inr cls" and "get_prop data ''confidence'' = Inr conf"
    and "r = onAnalyzeClick P decoded (Resolves resp) u"
  shows "(fst r \<noteq> Malformed \<longleftrightarrow> truthy cls \<and> is_number conf) \<and>
         (\<forall>shown. truthy cls \<and> is_number conf \<and> to_string P cls = Some shown \<longrightarrow>
            (\<exists>tag. fst r = Accepted tag) \<and> final_phase r = ResultReady \<and>
            \<not> result_hidden (final_page r) \<and> result_class (final_page r) = shown) \<and>
         (truthy cls \<and> is_number conf \<and> to_string P cls = None \<longrightarrow>
            fst r = NetworkFailure \<and> final_phase r = Error \<and> result_hidden (final_page r) \<and>
            status_text (final_page r) = MSG_NETWORK) \<and>
         (cls = JUndefined \<or> cls = JStr [] \<longrightarrow> fst r = Malformed)"
proof -
  note a = analyze_parsed [OF assms(1,2,3,4), of decoded]
  let ?v = "showSpinner False (reading_page decoded u)"
  have hid: "result_hidden ?v"
    by (simp add: reading_page_fields page_defs)
  show ?thesis
  proof (cases "truthy cls \<and> is_number conf")
    case False
    then have "\<not> truthy cls \<or> \<not> is_number conf" by simp
    from interpret_malformed [OF assms(5,6) this] False show ?thesis
      by (auto simp: assms(7) a)
  next
    case True
    then obtain x where x: "conf = JNum x" by (auto simp: is_number_iff)
    from True have tc: "truthy cls" by simp
    have ne: "cls \<noteq> JUndefined" "cls \<noteq> JStr []" using tc by auto
    show ?thesis
    proof (cases "to_string P cls")
      case None
      note i = interpret_unprintable [OF assms(5) tc assms(6) [unfolded x] None, of ?v]
      show ?thesis
        using True None ne hid
        by (simp add: assms(7) a i catch_block_other result_hidden_status_branch)
    next
      case (Some shown)
      note i = interpret_accepted [OF assms(5) tc assms(6) [unfolded x] Some, of ?v]
      show ?thesis
        using True Some ne by (simp add: assms(7) a i)
    qed
  qed
qed

theorem class_check_is_truthiness_witness:
  "fst (onAnalyzeClick demo_platform LoadFails (Resolves (reply 200 body_numeric_class)) demo_page)
     = Accepted Confident \<and>
   result_class (final_page (onAnalyzeClick demo_platform LoadFails
         (Resolves (reply 200 body_numeric_class)) demo_page)) = ''123''"
proof -
  let ?data = "JObj [(''class'', JNum (Finite 123)),
                 (''confidence'', JNum (Finite (4278419646001971 / 2 ^ 52)))]"
  have p: "get_prop ?data ''class'' = Inr (JNum (Finite 123))"
    "get_prop ?data ''confidence'' = Inr (JNum (Finite (4278419646001971 / 2 ^ 52)))"
    "truthy (JNum (Finite 123))" 
    by simp_all
  have s: "to_string demo_platform (JNum (Finite 123)) = Some ''123''"
    by (simp add: demo_defs)
  have "fst (onAnalyzeClick demo_platform LoadFails (Resolves (reply 200 body_numeric_class))
      demo_page) = Accepted Confident"
    unfolding analyze_parsed [OF demo_valid reply_ok reply_text demo_parse(5)]
      interpret_accepted [OF p(1,3,2) s]
    by (simp add: CONFIDENCE_THRESHOLD_def)
  then show ?thesis
    using class_check_is_truthiness [OF demo_valid reply_ok reply_text demo_parse(5) p(1,2) refl,
        of LoadFails] p(3) s
    by simp
qed

subsection \<open>Replies that are not ok\<close>

lemma body_not_ok:
  assumes "\<not> ok resp"
  shows "analyze_body P resp b v =
     (ServerError (server_message P b), showSpinner False (setStatus (server_message P b) True v))"
  using assms by (simp add: analyze_body_def Let_def)

lemma server_message_detail:
  assumes "JSON_parse P raw = Some json" "get_prop json ''detail'' = Inr d"
  shows "server_message P (Some raw) =
     (if truthy d
      then (case to_string P d of
              None \<Rightarrow> if raw = [] then MSG_SERVER_ERROR else raw
            | Some s \<Rightarrow> s)
      else raw)"
  using assms by (simp add: server_message_def Let_def split: option.splits)

lemma server_message_unparsed:
  assumes "JSON_parse P raw = None \<or> JSON_parse P raw = Some JNull"
  shows "server_message P (Some raw) = (if raw = [] then MSG_SERVER_ERROR else raw)"
  using assms by (auto simp: server_message_def Let_def)

lemma server_message_unread:
  assumes "JSON_parse P MSG_SERVER_ERROR = None"
  shows "server_message P None = MSG_SERVER_ERROR"
  using assms by (simp add: server_message_def Let_def MSG_SERVER_ERROR_def)

lemma not_ok_page:
  assumes "validateFile (files u) = None" "\<not> ok resp"
    and "resp_body resp = BodyText t \<and> b = Some t \<or> resp_body resp = BodyFails \<and> b = None"
  shows "fst (onAnalyzeClick P decoded (Resolves resp) u) = ServerError (server_message P b)"
    and "final_phase (onAnalyzeClick P decoded (Resolves resp) u) = Error"
    and "final_page (onAnalyzeClick P decoded (Resolves resp) u) =
           showSpinner False (setStatus (server_message P b) True (reading_page decoded u))"
  by (simp_all add: analyze_resolved [OF assms(1,3)] body_not_ok [OF assms(2)])

lemma reply_text_body:
  "resp_body (reply code t) = BodyText t \<and> Some t = Some t \<or>
   resp_body (reply code t) = BodyFails \<and> Some t = None"
  by (simp add: reply_def)

text \<open>
  Claim C7, as stated, fails: for an empty body the message is the fixed text
  "Server error", not the raw body text.
\<close>

theorem empty_error_body_shows_server_error:
  "status_text (final_page (onAnalyzeClick demo_platform LoadFails
      (Resolves (reply 500 [])) demo_page)) = ''Server error'' \<and>
   status_text (final_page (onAnalyzeClick demo_platform LoadFails
      (Resolves (reply 500 [])) demo_page)) \<noteq> []"
proof -
  have "server_message demo_platform (Some []) = ''Server error''"
    by (simp add: server_message_unparsed demo_parse MSG_SERVER_ERROR_def)
  then show ?thesis
    by (simp add: not_ok_page [OF demo_valid reply_not_ok reply_text_body] page_defs)
qed

text \<open>
  Claim C7, amended: every reply that is not ok and whose body is read, or fails to be
  read, ends in Error as a ServerError, with the spinner hidden and no result shown. Its
  message is the \<^verbatim>\<open>detail\<close> of the body, as a string, when the body parses and has a
  truthy detail that converts to a string; the raw body text when the body parses with a
  falsy or absent detail, or with a detail that does not convert, or does not parse
  and is not empty; and the fixed text "Server error" when the body is empty or cannot
  be read. A reply 500 with body \<^verbatim>\<open>{"detail":"model unavailable"}\<close> shows "model
  unavailable". When the body never arrives the attempt reports nothing.
\<close>

theorem server_error_message:
  assumes "validateFile (files u) = None"
    and "\<not> ok resp"
    and "r = onAnalyzeClick P decoded (Resolves resp) u"
  shows "(resp_body resp \<noteq> BodyStalls \<longrightarrow>
            fst r = ServerError (status_text (final_page r)) \<and> final_phase r = Error \<and>
            status_error (final_page r) \<and> spinner_hidden (final_page r) \<and>
            result_hidden (final_page r)) \<and>
         (\<forall>raw json d. resp_body resp = BodyText raw \<and> JSON_parse P raw = Some json \<and>
             get_prop json ''detail'' = Inr d \<longrightarrow>
               status_text (final_page r) =
                 (if truthy d
                  then (case to_string P d of
                          None \<Rightarrow> if raw = [] then MSG_SERVER_ERROR else raw
                        | Some s \<Rightarrow> s)
                  else raw)) \<and>
         (\<forall>raw. resp_body resp = BodyText raw \<and>
             (JSON_parse P raw = None \<or> JSON_parse P raw = Some JNull) \<longrightarrow>
               status_text (final_page r) = (if raw = [] then MSG_SERVER_ERROR else raw)) \<and>
         (resp_body resp = BodyFails \<and> JSON_parse P MSG_SERVER_ERROR = None \<longrightarrow>
               status_text (final_page r) = MSG_SERVER_ERROR) \<and>
         (resp_body resp = BodyStalls \<longrightarrow>
            fst r = NoOutcome \<and> final_phase r = Sending \<and> \<not> spinner_hidden (final_page r))"
proof -
  have read: "fst r = ServerError (status_text (final_page r)) \<and> final_phase r = Error \<and>
      status_error (final_page r) \<and> spinner_hidden (final_page r) \<and>
      result_hidden (final_page r) \<and> status_text (final_page r) = server_message P b"
    if "resp_body resp = BodyText t \<and> b = Some t \<or> resp_body resp = BodyFails \<and> b = None"
    for t b
    by (simp add: assms(3) not_ok_page [OF assms(1,2) that] reading_page_fields page_defs)
  have "resp_body resp \<noteq> BodyStalls \<longrightarrow>
            fst r = ServerError (status_text (final_page r)) \<and> final_phase r = Error \<and>
            status_error (final_page r) \<and> spinner_hidden (final_page r) \<and>
            result_hidden (final_page r)"
  proof (cases "resp_body resp")
    case (BodyText t)
    with read [of t "Some t"] show ?thesis by simp
  next
    case BodyFails
    with read [of _ None] show ?thesis by simp
  next
    case BodyStalls
    then show ?thesis by simp
  qed
  moreover have "\<forall>raw json d. resp_body resp = BodyText raw \<and> JSON_parse P raw = Some json \<and>
             get_prop json ''detail'' = Inr d \<longrightarrow>
               status_text (final_page r) =
                 (if truthy d
                  then (case to_string P d of
                          None \<Rightarrow> if raw = [] then MSG_SERVER_ERROR else raw
                        | Some s \<Rightarrow> s)
                  else raw)"
    using read server_message_detail by metis
  moreover have "\<forall>raw. resp_body resp = BodyText raw \<and>
             (JSON_parse P raw = None \<or> JSON_parse P raw = Some JNull) \<longrightarrow>
               status_text (final_page r) = (if raw = [] then MSG_SERVER_ERROR else raw)"
    using read server_message_unparsed by metis
  moreover have "resp_body resp = BodyFails \<and> JSON_parse P MSG_SERVER_ERROR = None \<longrightarrow>
               status_text (final_page r) = MSG_SERVER_ERROR"
    using read [of _ None] server_message_unread by auto
  moreover have "resp_body resp = BodyStalls \<longrightarrow>
            fst r = NoOutcome \<and> final_phase r = Sending \<and> \<not> spinner_hidden (final_page r)"
    by (simp add: assms(3) analyze_stalled [OF assms(1)] reading_page_fields)
  ultimately show ?thesis by blast
qed

theorem server_error_message_witness:
  "fst (onAnalyzeClick demo_platform LoadFails (Resolves (reply 500 body_unavailable)) demo_page)
     = ServerError ''model unavailable'' \<and>
   final_phase (onAnalyzeClick demo_platform LoadFails (Resolves (reply 500 body_unavailable))
     demo_page) = Error \<and>
   status_text (final_page (onAnalyzeClick demo_platform LoadFails
     (Resolves (reply 500 body_unavailable)) demo_page)) = ''model unavailable''"
proof -
  let ?r = "onAnalyzeClick demo_platform LoadFails (Resolves (reply 500 body_unavailable)) demo_page"
  let ?json = "JObj [(''detail'', JStr ''model unavailable'')]"
  note t = server_error_message [OF demo_valid reply_not_ok [of body_unavailable] refl,
      where P = demo_platform and decoded = LoadFails]
  from t have "resp_body (reply 500 body_unavailable) = BodyText body_unavailable \<and>
        JSON_parse demo_platform body_unavailable = Some ?json \<and>
        get_prop ?json ''detail'' = Inr (JStr ''model unavailable'') \<longrightarrow>
        status_text (final_page ?r) =
          (if truthy (JStr ''model unavailable'')
           then (case to_string demo_platform (JStr ''model unavailable'') of
                   None \<Rightarrow> if body_unavailable = [] then MSG_SERVER_ERROR else body_unavailable
                 | Some s \<Rightarrow> s)
           else body_unavailable)"
    by blast
  then have s: "status_text (final_page ?r) = ''model unavailable''"
    by (simp add: reply_text demo_parse)
  from t have "fst ?r = ServerError (status_text (final_page ?r)) \<and> final_phase ?r = Error"
    by (simp add: reply_text)
  with s show ?thesis by simp
qed

subsection \<open>The effects of an analyze attempt\<close>

lemma trace_request_page:
  "trace (request_page decoded u) = trace u @ check_effects decoded"
  by (simp add: request_page_def checking_page_def analyze_check_def check_effects_def Let_def
        page_defs)

lemma trace_sending_page:
  "trace (sending_page decoded u) =
     trace u @ check_effects decoded @
       [TimerSet 20000, FetchIssued API_URL ''POST'' [(''file'', files u)]]"
  by (simp add: sending_page_def fetch_start_def analyze_options_def trace_request_page)

lemma trace_catch_block:
  "trace (snd (catch_block name v)) =
     trace v @ [StatusSet (if name = ''AbortError'' then MSG_TIMEOUT else MSG_NETWORK) True,
                ConsoleError name]"
  by (simp add: catch_block_def Let_def page_defs)

lemma trace_interpret_reply:
  "\<exists>es. trace (snd (interpret_reply P data v)) = trace v @ es \<and> filter is_net es = []"
  by (auto simp: interpret_reply_def Let_def trace_catch_block page_defs
        split: sum.splits jsval.splits option.splits)

lemma trace_analyze_body:
  "\<exists>es. trace (snd (analyze_body P resp b v)) = trace v @ es \<and> filter is_net es = []"
proof (cases "ok resp")
  case False
  then show ?thesis by (simp add: analyze_body_def Let_def page_defs)
next
  case True
  show ?thesis
  proof (cases "resp_json P b")
    case (Inl name)
    with True show ?thesis by (simp add: analyze_body_def trace_catch_block)
  next
    case (Inr data)
    from trace_interpret_reply [of P data "showSpinner False v"]
    obtain es where "trace (snd (interpret_reply P data (showSpinner False v))) =
        trace (showSpinner False v) @ es" and "filter is_net es = []" by blast
    with True Inr show ?thesis
      by (simp add: analyze_body_def page_defs)
  qed
qed

lemma trace_analyze_finish:
  "\<exists>es. trace (final_page (out, snd (analyze_finish P r v))) =
          trace v @ (case r of Inl name \<Rightarrow> [] | Inr resp \<Rightarrow> [BodyRead]) @ es \<and>
        filter is_net es = []"
proof (cases r)
  case (Inl name)
  then show ?thesis
    by (simp add: analyze_finish_def final_page_def split_def trace_catch_block)
next
  case (Inr resp)
  show ?thesis
  proof (cases "resp_body resp")
    case BodyStalls
    with Inr show ?thesis
      by (simp add: analyze_finish_def final_page_def read_body_def)
  next
    case BodyFails
    from trace_analyze_body [of P resp None "read_body v"]
    obtain es where "trace (snd (analyze_body P resp None (read_body v))) =
        trace (read_body v) @ es" and "filter is_net es = []" by blast
    with Inr BodyFails show ?thesis
      by (simp add: analyze_finish_def final_page_def split_def read_body_def)
  next
    case (BodyText t)
    from trace_analyze_body [of P resp "Some t" "read_body v"]
    obtain es where "trace (snd (analyze_body P resp (Some t) (read_body v))) =
        trace (read_body v) @ es" and "filter is_net es = []" by blast
    with Inr BodyText show ?thesis
      by (simp add: analyze_finish_def final_page_def split_def read_body_def)
  qed
qed

lemma check_effects_no_net: "filter is_net (check_effects decoded) = []"
  by (simp add: check_effects_def)

lemma check_effects_no_abort: "e \<in> set (check_effects decoded) \<Longrightarrow> e \<noteq> Aborted"
  by (auto simp: check_effects_def split: if_splits)

lemma analyze_timer_first:
  assumes "validateFile (files u) = None"
  shows "fst (onAnalyzeClick P decoded TimerFirst u) = Timeout"
    and "final_phase (onAnalyzeClick P decoded TimerFirst u) = Error"
    and "final_page (onAnalyzeClick P decoded TimerFirst u) =
           snd (catch_block ''AbortError''
             ((sending_page decoded u)
              \<lparr>trace := trace (sending_page decoded u) @ [Aborted, TimerCleared]\<rparr>))"
  by (simp_all add: onAnalyzeClick_valid [OF assms] Let_def fetchWithTimeout_def
        fetch_settled_def analyze_finish_def final_page_def final_phase_def catch_block_def
        sending_page_def)

text \<open>The effects of an attempt, in order, whatever happens to the request.\<close>

lemma attempt_effects:
  assumes "validateFile (files u) = None"
  shows "\<exists>es. effects_of u (final_page (onAnalyzeClick P decoded net u)) =
            check_effects decoded @
            [TimerSet 20000, FetchIssued API_URL ''POST'' [(''file'', files u)]] @
            (case net of
               Resolves resp \<Rightarrow> [TimerCleared, BodyRead]
             | Rejects name \<Rightarrow> [TimerCleared]
             | TimerFirst \<Rightarrow> [Aborted, TimerCleared]) @ es \<and>
          filter is_net es = []"
proof -
  let ?r = "fetchWithTimeout API_URL (analyze_options (files u)) net (request_page decoded u)"
  let ?e = "analyze_finish P (fst ?r) (snd ?r)"
  have f: "final_page (onAnalyzeClick P decoded net u) = final_page (fst ?e, snd ?e)"
    by (cases "snd ?e = []")
      (simp_all add: onAnalyzeClick_valid [OF assms] Let_def final_page_def analyze_finish_def
        split_def split: sum.splits body_env.splits)
  have t: "trace (snd ?r) = trace u @ check_effects decoded @
            [TimerSet 20000, FetchIssued API_URL ''POST'' [(''file'', files u)]] @
            (case net of
               Resolves resp \<Rightarrow> [TimerCleared]
             | Rejects name \<Rightarrow> [TimerCleared]
             | TimerFirst \<Rightarrow> [Aborted, TimerCleared])"
    using trace_sending_page [of decoded u]
    by (cases net) (simp_all add: fetchWithTimeout_def fetch_settled_def sending_page_def)
  have k: "(case fst ?r of Inl name \<Rightarrow> [] | Inr resp \<Rightarrow> [BodyRead]) =
           (case net of Resolves resp \<Rightarrow> [BodyRead] | Rejects name \<Rightarrow> [] | TimerFirst \<Rightarrow> [])"
    by (cases net) (simp_all add: fetchWithTimeout_def fetch_settled_def)
  from trace_analyze_finish [of "fst ?e" P "fst ?r" "snd ?r"]
  obtain es where e: "trace (final_page (fst ?e, snd ?e)) =
      trace (snd ?r) @ (case fst ?r of Inl name \<Rightarrow> [] | Inr resp \<Rightarrow> [BodyRead]) @ es"
    and n: "filter is_net es = []" by blast
  have "effects_of u (final_page (onAnalyzeClick P decoded net u)) =
            check_effects decoded @
            [TimerSet 20000, FetchIssued API_URL ''POST'' [(''file'', files u)]] @
            (case net of
               Resolves resp \<Rightarrow> [TimerCleared, BodyRead]
             | Rejects name \<Rightarrow> [TimerCleared]
             | TimerFirst \<Rightarrow> [Aborted, TimerCleared]) @ es"
    unfolding f e t k effects_of_def by (cases net) simp_all
  with n show ?thesis by blast
qed

text \<open>
  Claim C3, as stated, fails: the timer covers the request only until its reply arrives.
  For a reply whose headers arrive and whose body never does, the timer is cleared, the
  body is read with no timer armed, nothing is aborted and no Timeout is ever reported:
  the attempt stays in Sending with the spinner shown.
\<close>

theorem stalled_body_is_never_timed_out:
  "filter is_net (effects_of demo_page (final_page (onAnalyzeClick demo_platform LoadFails
      (Resolves \<lparr>http_status = 200, resp_body = BodyStalls\<rparr>) demo_page))) =
     [TimerSet 20000, FetchIssued API_URL ''POST'' [(''file'', Some leaf_jpeg)], TimerCleared,
      BodyRead] \<and>
   fst (onAnalyzeClick demo_platform LoadFails
      (Resolves \<lparr>http_status = 200, resp_body = BodyStalls\<rparr>) demo_page) = NoOutcome \<and>
   fst (onAnalyzeClick demo_platform LoadFails
      (Resolves \<lparr>http_status = 200, resp_body = BodyStalls\<rparr>) demo_page) \<noteq> Timeout \<and>
   final_phase (onAnalyzeClick demo_platform LoadFails
      (Resolves \<lparr>http_status = 200, resp_body = BodyStalls\<rparr>) demo_page) = Sending \<and>
   \<not> spinner_hidden (final_page (onAnalyzeClick demo_platform LoadFails
      (Resolves \<lparr>http_status = 200, resp_body = BodyStalls\<rparr>) demo_page))"
proof -
  have s: "resp_body \<lparr>http_status = 200, resp_body = BodyStalls\<rparr> = BodyStalls"
    by simp
  have f: "files demo_page = Some leaf_jpeg"
    by (simp add: demo_page_def)
  have "trace (reading_page LoadFails demo_page) =
      trace demo_page @ check_effects LoadFails @
        [TimerSet 20000, FetchIssued API_URL ''POST'' [(''file'', Some leaf_jpeg)],
         TimerCleared, BodyRead]"
    by (simp add: reading_page_def read_body_def trace_sending_page f)
  then show ?thesis
    by (simp add: analyze_stalled [OF demo_valid s] reading_page_fields effects_of_def
          check_effects_no_net)
qed

text \<open>
  Claim C3, amended: every analyze attempt issues exactly one request, with no retry,
  under a timer of 20000 ms (the helper arms 15000 ms when no timeout is given) that
  covers the request until its reply arrives. When the timer fires before that, the
  request is aborted, the outcome is Timeout, and after the abort nothing happens but
  clearing the timer, reporting the Timeout and logging it. When the reply arrives
  first, the timer is cleared and the body is read with no timer; an attempt whose body
  never arrives reports no outcome.
\<close>

theorem single_bounded_request:
  assumes "validateFile (files u) = None"
    and "r = onAnalyzeClick P decoded net u"
  shows "filter is_net (effects_of u (final_page r)) =
           [TimerSet 20000, FetchIssued API_URL ''POST'' [(''file'', files u)]] @
           (case net of
              Resolves resp \<Rightarrow> [TimerCleared, BodyRead]
            | Rejects name \<Rightarrow> [TimerCleared]
            | TimerFirst \<Rightarrow> [Aborted, TimerCleared]) \<and>
         (net = TimerFirst \<longrightarrow>
            fst r = Timeout \<and> final_phase r = Error \<and>
            status_text (final_page r) = MSG_TIMEOUT \<and> status_error (final_page r) \<and>
            spinner_hidden (final_page r) \<and> result_hidden (final_page r) \<and>
            dropWhile (\<lambda>e. e \<noteq> Aborted) (effects_of u (final_page r)) =
              [Aborted, TimerCleared, StatusSet MSG_TIMEOUT True, ConsoleError ''AbortError'']) \<and>
         (\<forall>resp. net = Resolves resp \<and> resp_body resp = BodyStalls \<longrightarrow>
            fst r = NoOutcome \<and> final_phase r = Sending \<and> \<not> spinner_hidden (final_page r)) \<and>
         trace (fetch_start res \<lparr>req_method = m, req_body = b, req_timeout = None\<rparr> v) =
           trace v @ [TimerSet 15000, FetchIssued res m b]"
proof (intro conjI impI allI)
  from attempt_effects [OF assms(1), of P decoded net]
  obtain es where "effects_of u (final_page r) =
            check_effects decoded @
            [TimerSet 20000, FetchIssued API_URL ''POST'' [(''file'', files u)]] @
            (case net of
               Resolves resp \<Rightarrow> [TimerCleared, BodyRead]
             | Rejects name \<Rightarrow> [TimerCleared]
             | TimerFirst \<Rightarrow> [Aborted, TimerCleared]) @ es"
    and "filter is_net es = []" using assms(2) by blast
  then show "filter is_net (effects_of u (final_page r)) =
           [TimerSet 20000, FetchIssued API_URL ''POST'' [(''file'', files u)]] @
           (case net of
              Resolves resp \<Rightarrow> [TimerCleared, BodyRead]
            | Rejects name \<Rightarrow> [TimerCleared]
            | TimerFirst \<Rightarrow> [Aborted, TimerCleared])"
    by (cases net) (simp_all add: check_effects_no_net)
next
  show "trace (fetch_start res \<lparr>req_method = m, req_body = b, req_timeout = None\<rparr> v) =
           trace v @ [TimerSet 15000, FetchIssued res m b]"
    by (simp add: fetch_start_def)
next
  fix resp
  assume "net = Resolves resp \<and> resp_body resp = BodyStalls"
  then show "fst r = NoOutcome" "final_phase r = Sending" "\<not> spinner_hidden (final_page r)"
    by (simp_all add: assms(2) analyze_stalled [OF assms(1)] reading_page_fields)
next
  assume n: "net = TimerFirst"
  note a = analyze_timer_first [OF assms(1), of P decoded]
  show "fst r = Timeout" "final_phase r = Error"
    by (simp_all add: assms(2) n a)
  show "status_text (final_page r) = MSG_TIMEOUT" "status_error (final_page r)"
    "spinner_hidden (final_page r)"
    by (simp_all add: assms(2) n a catch_block_def Let_def page_defs)
  show "result_hidden (final_page r)"
    by (simp add: assms(2) n a catch_block_def Let_def page_defs sending_page_fields)
  have "effects_of u (final_page r) = check_effects decoded @
      [TimerSet 20000, FetchIssued API_URL ''POST'' [(''file'', files u)],
       Aborted, TimerCleared, StatusSet MSG_TIMEOUT True, ConsoleError ''AbortError'']"
    by (simp add: assms(2) n a trace_catch_block trace_sending_page effects_of_def)
  then show "dropWhile (\<lambda>e. e \<noteq> Aborted) (effects_of u (final_page r)) =
      [Aborted, TimerCleared, StatusSet MSG_TIMEOUT True, ConsoleError ''AbortError'']"
    using check_effects_no_abort [of _ decoded] by (simp add: dropWhile_append1 dropWhile_append2)
qed

theorem single_bounded_request_witness:
  "filter is_net (effects_of demo_page
      (final_page (onAnalyzeClick demo_platform LoadFails TimerFirst demo_page)))
     = [TimerSet 20000, FetchIssued API_URL ''POST'' [(''file'', Some leaf_jpeg)], Aborted,
        TimerCleared] \<and>
   fst (onAnalyzeClick demo_platform LoadFails TimerFirst demo_page) = Timeout \<and>
   status_text (final_page (onAnalyzeClick demo_platform LoadFails TimerFirst demo_page))
     = MSG_TIMEOUT"
proof -
  have "files demo_page = Some leaf_jpeg" by (simp add: demo_page_def)
  then show ?thesis
    using single_bounded_request [OF demo_valid refl, of demo_platform LoadFails TimerFirst]
    by simp
qed

subsection \<open>A low ratio\<close>

lemma catch_block_explain: "explain_hidden (snd (catch_block name v)) = explain_hidden v"
  by (simp add: catch_block_def Let_def page_defs)

lemma interpret_keeps_explain_shown:
  "\<not> explain_hidden v \<Longrightarrow> \<not> explain_hidden (snd (interpret_reply P data v))"
  by (auto simp: interpret_reply_def Let_def catch_block_explain page_defs
        split: sum.splits jsval.splits option.splits)

lemma body_keeps_explain_shown:
  "\<not> explain_hidden v \<Longrightarrow> \<not> explain_hidden (snd (analyze_body P resp b v))"
  by (auto simp: analyze_body_def Let_def catch_block_explain interpret_keeps_explain_shown
        page_defs split: sum.splits)

lemma finish_keeps_explain_shown:
  assumes "\<not> explain_hidden v" "(q, w) \<in> set (snd (analyze_finish P r v))"
  shows "\<not> explain_hidden w"
  using assms body_keeps_explain_shown [of "read_body v" P]
  by (auto simp: analyze_finish_def split_def catch_block_explain read_body_def
        split: sum.splits body_env.splits)

text \<open>
  Claim C6: on a valid file whose ratio is below 0.18 the warning is set and the
  explanation shown, and the pipeline goes on to Sending all the same: the request is
  issued, whatever the ratio, and it is among the effects of the attempt however the
  attempt ends. The warning text is replaced by the analyzing message before the
  handler suspends; the explanation stays visible on every page from Sending to the
  end of the attempt. When the picture cannot be decoded the heuristic gives 0, no
  error, and 0 is below 0.18.
\<close>

theorem low_ratio_warns_and_sends:
  assumes "validateFile (files u) = None"
    and "num_less (greenRatioHeuristic decoded) (Num GREEN_RATIO_WARN)"
    and "r = onAnalyzeClick P decoded net u"
  shows "(\<exists>s. (Sending, s) \<in> set (snd r) \<and> \<not> explain_hidden s \<and> \<not> spinner_hidden s \<and>
            status_text s = MSG_ANALYZING \<and>
            effects_of u s =
              [StatusSet [] False, StatusSet MSG_CHECKING False, StatusSet MSG_NOT_LEAF True,
               StatusSet MSG_ANALYZING False, TimerSet 20000,
               FetchIssued API_URL ''POST'' [(''file'', files u)]]) \<and>
         take 6 (effects_of u (final_page r)) =
           [StatusSet [] False, StatusSet MSG_CHECKING False, StatusSet MSG_NOT_LEAF True,
            StatusSet MSG_ANALYZING False, TimerSet 20000,
            FetchIssued API_URL ''POST'' [(''file'', files u)]] \<and>
         (\<forall>(q, v) \<in> set (tl (snd r)). \<not> explain_hidden v) \<and>
         greenRatioHeuristic LoadFails = Num 0 \<and>
         num_less (greenRatioHeuristic LoadFails) (Num GREEN_RATIO_WARN)"
proof -
  let ?s = "sending_page decoded u"
  let ?f = "fetchWithTimeout API_URL (analyze_options (files u)) net (request_page decoded u)"
  have c: "check_effects decoded =
      [StatusSet [] False, StatusSet MSG_CHECKING False, StatusSet MSG_NOT_LEAF True,
       StatusSet MSG_ANALYZING False]"
    using assms(2) by (simp add: check_effects_def)
  have "(Sending, ?s) \<in> set (snd r)"
    by (simp add: assms(3) onAnalyzeClick_valid [OF assms(1)] Let_def)
  moreover have "\<not> explain_hidden ?s" "\<not> spinner_hidden ?s" "status_text ?s = MSG_ANALYZING"
    using assms(2) by (simp_all add: sending_page_fields)
  moreover have "effects_of u ?s =
              [StatusSet [] False, StatusSet MSG_CHECKING False, StatusSet MSG_NOT_LEAF True,
               StatusSet MSG_ANALYZING False, TimerSet 20000,
               FetchIssued API_URL ''POST'' [(''file'', files u)]]"
    by (simp add: effects_of_def trace_sending_page c)
  moreover have "take 6 (effects_of u (final_page r)) =
           [StatusSet [] False, StatusSet MSG_CHECKING False, StatusSet MSG_NOT_LEAF True,
            StatusSet MSG_ANALYZING False, TimerSet 20000,
            FetchIssued API_URL ''POST'' [(''file'', files u)]]"
    using attempt_effects [OF assms(1), of P decoded net] by (auto simp: assms(3) c)
  moreover have "\<forall>(q, v) \<in> set (tl (snd r)). \<not> explain_hidden v"
  proof -
    have e: "\<not> explain_hidden (snd ?f)"
      using assms(2)
      by (cases net) (simp_all add: fetchWithTimeout_def fetch_settled_def fetch_start_def
          request_page_fields)
    show ?thesis
      using finish_keeps_explain_shown [OF e, of _ _ P "fst ?f"] \<open>\<not> explain_hidden ?s\<close>
      by (auto simp: assms(3) onAnalyzeClick_valid [OF assms(1)] Let_def)
  qed
  ultimately show ?thesis
    by (auto simp: greenRatioHeuristic_def GREEN_RATIO_WARN_def)
qed

theorem low_ratio_warns_and_sends_witness:
  "num_less (greenRatioHeuristic (Loads (Num (3602879701896397 / 2 ^ 56)))) (Num GREEN_RATIO_WARN) \<and>
   (\<exists>s. (Sending, s) \<in> set (snd (onAnalyzeClick demo_platform
            (Loads (Num (3602879701896397 / 2 ^ 56))) TimerFirst demo_page)) \<and>
        \<not> explain_hidden s \<and>
        effects_of demo_page s =
          [StatusSet [] False, StatusSet MSG_CHECKING False, StatusSet MSG_NOT_LEAF True,
           StatusSet MSG_ANALYZING False, TimerSet 20000,
           FetchIssued API_URL ''POST'' [(''file'', Some leaf_jpeg)]])"
proof -
  have l: "num_less (greenRatioHeuristic (Loads (Num (3602879701896397 / 2 ^ 56))))
      (Num GREEN_RATIO_WARN)"
    by (simp add: greenRatioHeuristic_def GREEN_RATIO_WARN_def)
  have f: "files demo_page = Some leaf_jpeg" by (simp add: demo_page_def)
  show ?thesis
    using low_ratio_warns_and_sends [OF demo_valid l refl, of demo_platform TimerFirst] f l
    by auto
qed

subsection \<open>The pages of a handler\<close>

lemma cleared_hidden: "result_cleared v \<Longrightarrow> result_hidden v"
  by (simp add: result_cleared_def)

lemma catch_block_result:
  "result_hidden (snd (catch_block name v)) = result_hidden v"
  "result_class (snd (catch_block name v)) = result_class v"
  "result_confidence (snd (catch_block name v)) = result_confidence v"
  by (simp_all add: catch_block_def Let_def page_defs)

lemma catch_block_cleared: "result_cleared (snd (catch_block name v)) = result_cleared v"
  by (simp add: result_cleared_def catch_block_result)

lemma catch_block_phase: "phase_of (fst (catch_block name v)) = Error"
  by (simp add: catch_block_def Let_def)

lemma interpret_cleared:
  assumes "result_cleared v" "phase_of (fst (interpret_reply P data v)) \<noteq> ResultReady"
  shows "result_cleared (snd (interpret_reply P data v))"
  using assms
  by (auto simp: interpret_reply_def Let_def catch_block_result result_cleared_def page_defs
        split: sum.splits jsval.splits option.splits if_splits)

lemma body_cleared:
  assumes "result_cleared v" "phase_of (fst (analyze_body P resp b v)) \<noteq> ResultReady"
  shows "result_cleared (snd (analyze_body P resp b v))"
proof (cases "ok resp")
  case False
  with assms(1) show ?thesis
    by (simp add: analyze_body_def Let_def result_cleared_def page_defs)
next
  case True
  show ?thesis
  proof (cases "resp_json P b")
    case (Inl name)
    with True assms(1) show ?thesis by (simp add: analyze_body_def catch_block_cleared)
  next
    case (Inr data)
    have "result_cleared (showSpinner False v)"
      using assms(1) by (simp add: result_cleared_def page_defs)
    with True Inr assms(2) show ?thesis
      by (simp add: analyze_body_def interpret_cleared)
  qed
qed

lemma finish_cleared:
  assumes "result_cleared v" "(q, w) \<in> set (snd (analyze_finish P r v))" "q \<noteq> ResultReady"
  shows "result_cleared w"
proof -
  have rb: "result_cleared (read_body v)"
    using assms(1) by (simp add: result_cleared_def read_body_def)
  from assms(2,3) show ?thesis
    using assms(1) rb body_cleared [OF rb, of P]
    by (auto simp: analyze_finish_def split_def catch_block_cleared
          split: sum.splits body_env.splits)
qed

lemma checking_page_cleared: "result_cleared (checking_page u)"
  by (simp add: checking_page_def result_cleared_def page_defs)

lemma request_page_cleared: "result_cleared (request_page decoded u)"
  by (simp add: result_cleared_def request_page_fields)

lemma sending_page_cleared: "result_cleared (sending_page decoded u)"
  by (simp add: result_cleared_def sending_page_fields)

lemma fetch_cleared:
  "result_cleared (snd (fetchWithTimeout res opts net v)) = result_cleared v"
  by (cases net)
    (simp_all add: fetchWithTimeout_def fetch_settled_def fetch_start_def result_cleared_def
      Let_def)

lemma analyze_pages_cleared:
  assumes "(q, v) \<in> set (snd (onAnalyzeClick P decoded net u))" "q \<noteq> ResultReady"
  shows "result_cleared v"
proof (cases "validateFile (files u)")
  case (Some err)
  with assms show ?thesis
    by (simp add: analyze_invalid result_cleared_def page_defs)
next
  case None
  let ?f = "fetchWithTimeout API_URL (analyze_options (files u)) net (request_page decoded u)"
  have c: "result_cleared (snd ?f)"
    by (simp add: fetch_cleared request_page_cleared)
  from assms show ?thesis
    using finish_cleared [OF c, of q v P "fst ?f"]
    by (auto simp: onAnalyzeClick_valid [OF None] Let_def checking_page_cleared
          sending_page_cleared)
qed

lemma analyze_first_page_cleared:
  "snd (onAnalyzeClick P decoded net u) \<noteq> [] \<and>
   result_cleared (snd (hd (snd (onAnalyzeClick P decoded net u))))"
proof (cases "validateFile (files u)")
  case (Some err)
  then show ?thesis
    by (simp add: analyze_invalid result_cleared_def page_defs)
next
  case None
  then show ?thesis
    by (simp add: onAnalyzeClick_valid Let_def checking_page_cleared)
qed

lemma analyze_sending_page:
  assumes "validateFile (files u) = None"
  shows "(Sending, sending_page decoded u) \<in> set (snd (onAnalyzeClick P decoded net u)) \<and>
         result_cleared (sending_page decoded u) \<and>
         FetchIssued API_URL ''POST'' [(''file'', files u)]
           \<in> set (effects_of u (sending_page decoded u))"
  by (simp add: onAnalyzeClick_valid [OF assms] Let_def sending_page_cleared effects_of_def
        trace_sending_page)

lemma change_pages_cleared:
  assumes "(q, v) \<in> set (snd (onFileChange probe u))"
  shows "result_cleared v"
  using assms
  by (auto simp: onFileChange_def change_begin_def change_probed_def Let_def result_cleared_def
        page_defs split: option.splits if_splits)

lemma handle_pages_result:
  assumes "(q, v) \<in> set (snd (handle P ev u))" "\<not> result_hidden v"
  shows "q = ResultReady"
proof (cases ev)
  case (FileSelected sel probe)
  with assms change_pages_cleared cleared_hidden show ?thesis by auto
next
  case (AnalyzeRequested decoded net)
  show ?thesis
  proof (rule ccontr)
    assume "q \<noteq> ResultReady"
    with assms(1) have "result_cleared v"
      using analyze_pages_cleared [of q v P decoded net u] by (simp add: AnalyzeRequested)
    with assms(2) show False by (simp add: cleared_hidden)
  qed
qed

lemma handle_pages_nonempty: "snd (handle P ev u) \<noteq> []"
proof (cases ev)
  case (FileSelected sel probe)
  then show ?thesis
    by (auto simp: onFileChange_def split_def split: sum.splits)
next
  case (AnalyzeRequested decoded net)
  then show ?thesis
    using analyze_first_page_cleared by simp
qed

lemma settled_result:
  assumes "settled P (p, u)" "\<not> result_hidden u"
  shows "p = ResultReady"
  using assms
proof (induction "(p, u)" arbitrary: p u rule: settled.induct)
  case (loaded u0)
  then show ?case by (simp add: onDOMContentLoaded_def)
next
  case (handled p0 u0 ev)
  have "last (snd (handle P ev u0)) \<in> set (snd (handle P ev u0))"
    by (rule last_in_set [OF handle_pages_nonempty])
  with handled(3) have "(p, u) \<in> set (snd (handle P ev u0))" by simp
  then show ?case using handled.prems by (rule handle_pages_result)
qed

subsection \<open>Overlapping handlers\<close>

lemma reachable_run: "reachable P c \<Longrightarrow> reachable P (run P ms c)"
proof (induction ms arbitrary: c)
  case Nil
  then show ?case by simp
next
  case (Cons m ms)
  show ?case
  proof (cases "react P m c")
    case None
    with Cons show ?thesis by simp
  next
    case (Some c')
    with Cons.prems have "reachable P c'" by (rule reachable.moved)
    with Cons.IH Some show ?thesis by simp
  qed
qed

lemma reachable_loaded: "reachable P (Idle, onDOMContentLoaded blank_page, [])"
  by (rule reachable.loaded) (simp_all add: blank_page_def)

lemma race_end_value:
  "fst race_end = Previewed \<and> \<not> result_hidden (fst (snd race_end)) \<and>
   result_class (fst (snd race_end)) = ''Healthy'' \<and>
   preview_src (fst (snd race_end)) = Some leaf_png \<and> snd (snd race_end) = []"
  by (simp add: race_end_def race_moves_def onDOMContentLoaded_def change_begin_def
        change_probed_def analyze_begin_def analyze_check_def analyze_options_def
        fetch_start_def fetch_settled_def read_body_def analyze_body_def resp_json_def
        interpret_reply_def greenRatioHeuristic_def validateFile_def ok_def reply_def
        MAX_SIZE_def MIN_DIM_def GREEN_RATIO_WARN_def CONFIDENCE_THRESHOLD_def leaf_png_def
        Let_def page_defs demo_defs)

text \<open>
  Claim C8, as stated, fails: the script lets handlers overlap, and a handler that
  resumes does not look at what another one has done meanwhile. In the run
  \<open>race_moves\<close> a file is re-selected while a request is in flight; the result of the
  attempt is shown while the change handler waits, and the change handler then ends in
  Previewed with that result still shown.
\<close>

theorem result_shown_on_previewed_page:
  "reachable demo_platform race_end \<and> fst race_end = Previewed \<and>
   \<not> result_hidden (fst (snd race_end)) \<and> fst race_end \<noteq> ResultReady"
proof -
  have "reachable demo_platform race_end"
    unfolding race_end_def by (rule reachable_run [OF reachable_loaded])
  then show ?thesis using race_end_value by simp
qed

text \<open>
  Claim C8, amended: as long as handlers do not overlap (no event is taken while a
  handler waits for something that will arrive), a result is shown only in the state
  ResultReady. Every analyze attempt clears the prior result at its start: the first
  page it leaves visible has the result hidden and its fields reset, so has every page
  of the attempt that is not ResultReady, and on a file that passes validation the
  request is issued on such a page.
\<close>

theorem result_only_when_ready:
  assumes "serially_visible P (p, u)"
  shows "(\<not> result_hidden u \<longrightarrow> p = ResultReady) \<and>
         (\<forall>decoded net.
            snd (onAnalyzeClick P decoded net u) \<noteq> [] \<and>
            result_cleared (snd (hd (snd (onAnalyzeClick P decoded net u)))) \<and>
            (\<forall>(q, v) \<in> set (snd (onAnalyzeClick P decoded net u)).
               q \<noteq> ResultReady \<longrightarrow> result_cleared v) \<and>
            (validateFile (files u) = None \<longrightarrow>
               (\<exists>s. (Sending, s) \<in> set (snd (onAnalyzeClick P decoded net u)) \<and>
                    result_cleared s \<and>
                    FetchIssued API_URL ''POST'' [(''file'', files u)]
                      \<in> set (effects_of u s))))"
proof
  from assms show "\<not> result_hidden u \<longrightarrow> p = ResultReady"
  proof (cases rule: serially_visible.cases)
    case between
    then show ?thesis using settled_result by blast
  next
    case (during p0 u0 ev)
    then show ?thesis using handle_pages_result by blast
  qed
  show "\<forall>decoded net.
            snd (onAnalyzeClick P decoded net u) \<noteq> [] \<and>
            result_cleared (snd (hd (snd (onAnalyzeClick P decoded net u)))) \<and>
            (\<forall>(q, v) \<in> set (snd (onAnalyzeClick P decoded net u)).
               q \<noteq> ResultReady \<longrightarrow> result_cleared v) \<and>
            (validateFile (files u) = None \<longrightarrow>
               (\<exists>s. (Sending, s) \<in> set (snd (onAnalyzeClick P decoded net u)) \<and>
                    result_cleared s \<and>
                    FetchIssued API_URL ''POST'' [(''file'', files u)]
                      \<in> set (effects_of u s)))"
    using analyze_first_page_cleared analyze_pages_cleared analyze_sending_page by blast
qed

lemma settled_loaded: "settled P (Idle, onDOMContentLoaded blank_page)"
  by (rule settled.loaded) (simp_all add: blank_page_def)

lemma settled_demo_previewed: "settled demo_platform (fst demo_previewed, snd demo_previewed)"
  using settled.handled [OF settled_loaded, of demo_platform
      "FileSelected (Some leaf_jpeg) (Some (800, 600))"]
  by (simp add: demo_previewed_def)

lemma files_demo_previewed: "files (snd demo_previewed) = Some leaf_jpeg"
  by (simp add: demo_previewed_def onFileChange_def change_begin_def change_probed_def
        onDOMContentLoaded_def Let_def page_defs validateFile_def MIN_DIM_def MAX_SIZE_def
        demo_defs)

lemma valid_demo_previewed: "validateFile (files (snd demo_previewed)) = None"
  by (simp add: files_demo_previewed validateFile_def MAX_SIZE_def leaf_jpeg_def)

lemma settled_demo_ready: "settled demo_platform (fst demo_ready, snd demo_ready)"
  using settled.handled [OF settled_demo_previewed, of
      "AnalyzeRequested (Loads (Num 1)) (Resolves (reply 200 body_at_threshold))"]
  by (simp add: demo_ready_def)

lemma demo_ready_shows_result: "\<not> result_hidden (snd demo_ready)"
proof -
  have "snd demo_ready = final_page (onAnalyzeClick demo_platform (Loads (Num 1))
      (Resolves (reply 200 body_at_threshold)) (snd demo_previewed))"
    by (simp add: demo_ready_def final_page_def)
  then show ?thesis
    unfolding analyze_parsed [OF valid_demo_previewed reply_ok reply_text demo_parse(1)]
      interpret_accepted [OF healthy_props(1,3,2,4)]
    by simp
qed

theorem result_only_when_ready_witness:
  "serially_visible demo_platform (fst demo_ready, snd demo_ready) \<and>
   \<not> result_hidden (snd demo_ready) \<and> fst demo_ready = ResultReady \<and>
   result_cleared (snd (hd (snd (onAnalyzeClick demo_platform LoadFails TimerFirst
     (snd demo_ready)))))"
proof -
  have r: "serially_visible demo_platform (fst demo_ready, snd demo_ready)"
    by (rule serially_visible.between [OF settled_demo_ready])
  from result_only_when_ready [OF r] demo_ready_shows_result
  have "fst demo_ready = ResultReady"
    and "result_cleared (snd (hd (snd (onAnalyzeClick demo_platform LoadFails TimerFirst
     (snd demo_ready)))))"
    by blast+
  with r demo_ready_shows_result show ?thesis by simp
qed

subsection \<open>Errors and the file selection\<close>


lemma interpret_keeps_files: "files (snd (interpret_reply P data v)) = files v"
  by (auto simp: interpret_reply_def Let_def catch_block_other(6) catch_block_def page_defs
        split: sum.splits jsval.splits option.splits)

lemma body_keeps_files: "files (snd (analyze_body P resp b v)) = files v"
  by (auto simp: analyze_body_def Let_def interpret_keeps_files catch_block_def page_defs
        split: sum.splits)







lemma react_selection:
  assumes "react P m (p, u, ks) = Some (q, v, ls)"
    and "files u = None \<or> validateFile (files u) = None"
  shows "files v = None \<or> validateFile (files v) = None"
proof (cases m)
  case (Selected sel)
  with assms(1) show ?thesis
    by (auto simp: change_begin_def Let_def page_defs split: option.splits)
next
  case Clicked
  with assms show ?thesis
    by (auto simp: analyze_begin_def Let_def page_defs split: option.splits)
next
  case (Probed fl probe)
  with assms show ?thesis
    by (auto simp: change_probed_def page_defs split: if_splits option.splits)
next
  case (Scored fl decoded)
  with assms show ?thesis
    by (auto simp: fetch_start_def analyze_check_def Let_def page_defs split: if_splits)
next
  case (Fetched net)
  with assms show ?thesis
    by (cases net)
      (auto simp: fetch_settled_def read_body_def catch_block_def Let_def page_defs
        split: if_splits)
next
  case (BodyArrived resp)
  with assms body_keeps_files [of P resp _ u] show ?thesis
    by (auto simp: split_def split: if_splits body_env.splits)
qed

lemma reachable_selection:
  assumes "reachable P (p, u, ks)"
  shows "files u = None \<or> validateFile (files u) = None"
  using assms
proof (induction "(p, u, ks)" arbitrary: p u ks rule: reachable.induct)
  case (loaded u0)
  then show ?case by (simp add: onDOMContentLoaded_def)
next
  case (moved c m)
  obtain p0 u0 ks0 where c: "c = (p0, u0, ks0)" by (cases c)
  from moved(2) [OF c] moved(3) show ?case
    unfolding c by (rule react_selection [rotated])
qed





subsection \<open>Runs without overlap are runs of the page\<close>

lemma all_stalled_no_waiter:
  assumes "all_stalled ks"
  shows "AwaitDims f \<notin> set ks" "AwaitHeuristic f \<notin> set ks" "AwaitFetch \<notin> set ks"
    "resp_body resp \<noteq> BodyStalls \<Longrightarrow> AwaitBody resp \<notin> set ks"
  using assms by (auto simp: all_stalled_def)

lemma remove1_appended: "k \<notin> set ks \<Longrightarrow> remove1 k (ks @ [k]) = ks"
  by (simp add: remove1_append)

lemma change_as_moves:
  assumes "all_stalled ks"
  shows "run P [Selected sel, Probed sel probe] (p, u, ks) =
     (final_phase (handle P (FileSelected sel probe) u),
      final_page (handle P (FileSelected sel probe) u), ks)"
proof (cases "change_begin (u\<lparr>files := sel\<rparr>)")
  case (Inl a)
  then show ?thesis
    using all_stalled_no_waiter(1) [OF assms]
    by (cases a) (simp add: onFileChange_def final_page_def final_phase_def)
next
  case (Inr v)
  then show ?thesis
    using all_stalled_no_waiter(1) [OF assms]
    by (simp add: onFileChange_def final_page_def final_phase_def split_def remove1_appended)
qed

lemma analyze_as_moves:
  assumes "all_stalled ks"
  shows "\<exists>ls. all_stalled ls \<and>
     run P ([Clicked, Scored (files u) decoded, Fetched net] @
            (case net of Resolves resp \<Rightarrow> [BodyArrived resp] | Rejects name \<Rightarrow> []
             | TimerFirst \<Rightarrow> [])) (p, u, ks) =
     (final_phase (handle P (AnalyzeRequested decoded net) u),
      final_page (handle P (AnalyzeRequested decoded net) u), ls)"
proof (cases "validateFile (files u)")
  case (Some err)
  have "run P ([Clicked, Scored (files u) decoded, Fetched net] @
            (case net of Resolves resp \<Rightarrow> [BodyArrived resp] | Rejects name \<Rightarrow> []
             | TimerFirst \<Rightarrow> [])) (p, u, ks) =
     (final_phase (handle P (AnalyzeRequested decoded net) u),
      final_page (handle P (AnalyzeRequested decoded net) u), ks)"
    using all_stalled_no_waiter [OF assms] assms
    by (cases net)
      (auto simp: analyze_invalid [OF Some] analyze_begin_invalid [OF Some] final_page_def
        final_phase_def all_stalled_def split: body_env.splits)
  with assms show ?thesis by blast
next
  case None
  note w = all_stalled_no_waiter [OF assms]
  have s: "fetch_start API_URL (analyze_options (files u))
      (analyze_check (greenRatioHeuristic decoded) (checking_page u)) = sending_page decoded u"
    by (simp add: sending_page_def request_page_def)
  have start: "run P [Clicked, Scored (files u) decoded] (p, u, ks) =
      (Sending, sending_page decoded u, ks @ [AwaitFetch])"
    using w by (simp add: analyze_begin_valid [OF None] s remove1_appended)
  have split_run: "run P (xs @ ys) c = run P ys (run P xs c)" for xs ys c
    by (induction xs arbitrary: c) simp_all
  show ?thesis
  proof (cases net)
    case TimerFirst
    have "run P [Fetched net] (Sending, sending_page decoded u, ks @ [AwaitFetch]) =
        (final_phase (handle P (AnalyzeRequested decoded net) u),
         final_page (handle P (AnalyzeRequested decoded net) u), ks)"
      using w
      by (simp add: TimerFirst analyze_timer_first [OF None] fetch_settled_def split_def
            catch_block_phase remove1_appended)
    with start assms show ?thesis
      using split_run [of "[Clicked, Scored (files u) decoded]" "[Fetched net]" "(p, u, ks)"]
      by (auto simp: TimerFirst)
  next
    case (Rejects name)
    have "run P [Fetched net] (Sending, sending_page decoded u, ks @ [AwaitFetch]) =
        (final_phase (handle P (AnalyzeRequested decoded net) u),
         final_page (handle P (AnalyzeRequested decoded net) u), ks)"
      using w
      by (simp add: Rejects onAnalyzeClick_valid [OF None] Let_def fetchWithTimeout_def
            fetch_settled_def analyze_finish_def final_page_def final_phase_def split_def
            remove1_appended sending_page_def request_page_def)
    with start assms show ?thesis
      using split_run [of "[Clicked, Scored (files u) decoded]" "[Fetched net]" "(p, u, ks)"]
      by (auto simp: Rejects)
  next
    case (Resolves resp)
    have fetched: "run P [Fetched net] (Sending, sending_page decoded u, ks @ [AwaitFetch]) =
        (Sending, reading_page decoded u, ks @ [AwaitBody resp])"
      using w
      by (simp add: Resolves fetch_settled_def reading_page_def remove1_appended)
    have "\<exists>ls. all_stalled ls \<and>
        run P [BodyArrived resp] (Sending, reading_page decoded u, ks @ [AwaitBody resp]) =
        (final_phase (handle P (AnalyzeRequested decoded net) u),
         final_page (handle P (AnalyzeRequested decoded net) u), ls)"
    proof (cases "resp_body resp")
      case BodyStalls
      then have "all_stalled (ks @ [AwaitBody resp])"
        using assms by (auto simp: all_stalled_def)
      with BodyStalls show ?thesis
        by (simp add: Resolves analyze_stalled [OF None])
    next
      case BodyFails
      then have b: "resp_body resp = BodyText t \<and> None = Some t \<or>
          resp_body resp = BodyFails \<and> None = None" for t
        by simp
      from BodyFails w(4) [of resp] assms show ?thesis
        by (simp add: Resolves analyze_resolved [OF None b] split_def remove1_appended)
    next
      case (BodyText t)
      then have b: "resp_body resp = BodyText t \<and> Some t = Some t \<or>
          resp_body resp = BodyFails \<and> Some t = None"
        by simp
      from BodyText w(4) [of resp] assms show ?thesis
        by (simp add: Resolves analyze_resolved [OF None b] split_def remove1_appended)
    qed
    with start fetched show ?thesis
      using split_run [of "[Clicked, Scored (files u) decoded]"
          "[Fetched net, BodyArrived resp]" "(p, u, ks)"]
        split_run [of "[Fetched net]" "[BodyArrived resp]"
          "(Sending, sending_page decoded u, ks @ [AwaitFetch])"]
      by (auto simp: Resolves)
  qed
qed

text \<open>Every page between the events of a run without overlap is a page of the script.\<close>

lemma settled_reachable:
  assumes "settled P (p, u)"
  shows "\<exists>ks. reachable P (p, u, ks) \<and> all_stalled ks"
  using assms
proof (induction "(p, u)" arbitrary: p u rule: settled.induct)
  case (loaded u0)
  have "reachable P (Idle, onDOMContentLoaded u0, [])"
    using loaded by (intro reachable.loaded)
  then show ?case by (auto simp: all_stalled_def)
next
  case (handled p0 u0 ev)
  from handled(2) obtain ks where r: "reachable P (p0, u0, ks)" and a: "all_stalled ks"
    by blast
  from handled(3) have pu: "p = final_phase (handle P ev u0)" "u = final_page (handle P ev u0)"
    unfolding final_page_def final_phase_def by (metis fst_conv, metis snd_conv)
  show ?case
  proof (cases ev)
    case (FileSelected sel probe)
    from reachable_run [OF r, of "[Selected sel, Probed sel probe]"] a show ?thesis
      unfolding change_as_moves [OF a] pu FileSelected by blast
  next
    case (AnalyzeRequested decoded net)
    from analyze_as_moves [OF a, of P u0 decoded net p0]
    obtain ls where "all_stalled ls"
      and "run P ([Clicked, Scored (files u0) decoded, Fetched net] @
            (case net of Resolves resp \<Rightarrow> [BodyArrived resp] | Rejects name \<Rightarrow> []
             | TimerFirst \<Rightarrow> [])) (p0, u0, ks) =
        (final_phase (handle P (AnalyzeRequested decoded net) u0),
         final_page (handle P (AnalyzeRequested decoded net) u0), ls)"
      by blast
    with reachable_run [OF r, of "[Clicked, Scored (files u0) decoded, Fetched net] @
            (case net of Resolves resp \<Rightarrow> [BodyArrived resp] | Rejects name \<Rightarrow> []
             | TimerFirst \<Rightarrow> [])"]
    show ?thesis unfolding pu AnalyzeRequested by auto
  qed
qed

end
